theory Spec2Isabelle
  imports Complex_Main "HOL-Library.Multiset" "HOL-Library.Sublist"
begin

section \<open>Numbers, vectors, planes and matrices\<close>

text \<open>
  The C++ type \<open>float\<close> is read as \<^typ>\<open>real\<close>: sums, products and comparisons are
  the exact ones, there is no rounding, no NaN and no infinity. Where the source divides
  by a quantity that can be zero the IEEE result is an infinity or a NaN, while HOL's
  total division gives \<open>0\<close>; those places are marked, and no theorem below rests on the
  value of such a quotient. \<open>FLT_MAX\<close> is the largest finite \<open>float\<close>, that is
  \<open>(2 ^ 24 - 1) * 2 ^ 104\<close>; the source uses it as its "never" value.
\<close>

definition FLT_MAX :: real where
  "FLT_MAX = 340282346638528859811704183484516925440"

text \<open>
  Modelled from the spec: the math types \<open>Vec3\<close>, \<open>Quat\<close>, \<open>Mat44\<close> and \<open>Plane\<close>
  (headers \<open>Jolt/Math\<close> and \<open>Jolt/Geometry/Plane.h\<close>, not part of the sources at hand).
  The spec names them \<open>vec3\<close>, \<open>quat\<close> and "plane: (normal, signed_distance)"; the
  operations are the usual ones of three-dimensional vector algebra.
\<close>

datatype Vec3 = Vec3 (GetX: real) (GetY: real) (GetZ: real)

instantiation Vec3 :: "{zero, plus, minus, uminus}"
begin

definition zero_Vec3_def: "0 = Vec3 0 0 0"

definition plus_Vec3_def:
  "a + b = Vec3 (GetX a + GetX b) (GetY a + GetY b) (GetZ a + GetZ b)"

definition minus_Vec3_def:
  "a - b = Vec3 (GetX a - GetX b) (GetY a - GetY b) (GetZ a - GetZ b)"

definition uminus_Vec3_def:
  "- a = Vec3 (- GetX a) (- GetY a) (- GetZ a)"

instance ..
end

definition sZero :: Vec3 where
  "sZero = 0"

definition sReplicate :: "real \<Rightarrow> Vec3" where
  "sReplicate v = Vec3 v v v"

text \<open>\<open>float * Vec3\<close> and \<open>Vec3 * float\<close> (the same product), and \<open>Vec3 / float\<close>.\<close>

definition smul :: "real \<Rightarrow> Vec3 \<Rightarrow> Vec3" where
  "smul s a = Vec3 (s * GetX a) (s * GetY a) (s * GetZ a)"

definition sdiv :: "Vec3 \<Rightarrow> real \<Rightarrow> Vec3" where
  "sdiv a s = Vec3 (GetX a / s) (GetY a / s) (GetZ a / s)"

definition Dot :: "Vec3 \<Rightarrow> Vec3 \<Rightarrow> real" where
  "Dot a b = GetX a * GetX b + GetY a * GetY b + GetZ a * GetZ b"

definition Cross :: "Vec3 \<Rightarrow> Vec3 \<Rightarrow> Vec3" where
  "Cross a b = Vec3 (GetY a * GetZ b - GetZ a * GetY b)
                    (GetZ a * GetX b - GetX a * GetZ b)
                    (GetX a * GetY b - GetY a * GetX b)"

definition LengthSq :: "Vec3 \<Rightarrow> real" where
  "LengthSq a = Dot a a"

definition Length :: "Vec3 \<Rightarrow> real" where
  "Length a = sqrt (LengthSq a)"

text \<open>\<open>Normalized\<close> of the zero vector is a vector of NaNs in C++ and the zero vector here.\<close>

definition Normalized :: "Vec3 \<Rightarrow> Vec3" where
  "Normalized a = sdiv a (Length a)"

definition NormalizedOr :: "Vec3 \<Rightarrow> Vec3 \<Rightarrow> Vec3" where
  "NormalizedOr a inZeroValue = (if LengthSq a = 0 then inZeroValue else Normalized a)"

datatype Plane = Plane (GetNormal: Vec3) (GetConstant: real)

definition SignedDistance :: "Plane \<Rightarrow> Vec3 \<Rightarrow> real" where
  "SignedDistance p inPoint = Dot inPoint (GetNormal p) + GetConstant p"

datatype Quat = Quat (QX: real) (QY: real) (QZ: real) (QW: real)

text \<open>A \<open>Mat44\<close> as its three rotation columns and its translation column.\<close>

datatype Mat44 = Mat44 (GetAxisX: Vec3) (GetAxisY: Vec3) (GetAxisZ: Vec3) (GetTranslation: Vec3)

definition sRotation :: "Quat \<Rightarrow> Mat44" where
  "sRotation q =
    (let x = QX q; y = QY q; z = QZ q; w = QW q in
     Mat44 (Vec3 (1 - 2 * (y * y + z * z)) (2 * (x * y + z * w)) (2 * (x * z - y * w)))
           (Vec3 (2 * (x * y - z * w)) (1 - 2 * (x * x + z * z)) (2 * (y * z + x * w)))
           (Vec3 (2 * (x * z + y * w)) (2 * (y * z - x * w)) (1 - 2 * (x * x + y * y)))
           0)"

definition SetTranslation :: "Mat44 \<Rightarrow> Vec3 \<Rightarrow> Mat44" where
  "SetTranslation m t = Mat44 (GetAxisX m) (GetAxisY m) (GetAxisZ m) t"

definition Multiply3x3 :: "Mat44 \<Rightarrow> Vec3 \<Rightarrow> Vec3" where
  "Multiply3x3 m v =
     smul (GetX v) (GetAxisX m) + smul (GetY v) (GetAxisY m) + smul (GetZ v) (GetAxisZ m)"

text \<open>\<open>Mat44 * Vec3\<close>: the vector is a point, so the translation is added.\<close>

definition MultiplyPoint :: "Mat44 \<Rightarrow> Vec3 \<Rightarrow> Vec3" where
  "MultiplyPoint m v = Multiply3x3 m v + GetTranslation m"

section \<open>The host physics engine\<close>

text \<open>
  Modelled from the spec: the host's types (\<open>BodyID\<close>, \<open>SubShapeID\<close>, \<open>EMotionType\<close>,
  \<open>Shape\<close>, \<open>Body\<close>, \<open>CollideShapeResult\<close>, \<open>ShapeCastResult\<close>, the query settings and
  \<open>PhysicsSystem\<close>) are declared in headers that are not part of the sources at hand.
  Section 6 of the spec lists the capability the character consumes; each record below
  holds exactly the members \<open>CharacterVirtual.cpp\<close> reads or calls. Identifiers, user
  data and material pointers are opaque and are numbers here.
\<close>

type_synonym BodyID = nat
type_synonym SubShapeID = nat
type_synonym PhysicsMaterial = nat

text \<open>
  Modelled from the spec: \<open>EMotionType\<close> (\<open>Jolt/Physics/Body/MotionType.h\<close>). The spec
  gives the enumerators as "static / kinematic / dynamic"; an \<open>enum class\<close> numbers its
  enumerators in the order of declaration, which \<open>EMotionType_value\<close> writes out. The
  source compares motion types with \<open>>\<close>, that is, by these numbers.
\<close>

datatype EMotionType = Static | Kinematic | Dynamic

fun EMotionType_value :: "EMotionType \<Rightarrow> nat" where
  "EMotionType_value Static = 0"
| "EMotionType_value Kinematic = 1"
| "EMotionType_value Dynamic = 2"

text \<open>
  A shape is held by pointer and compared by pointer; \<open>mAddress\<close> stands for the
  address, \<^typ>\<open>'a option\<close> for a pointer that may be null.
\<close>

record Shape =
  mAddress :: nat
  GetCenterOfMass :: Vec3

record Body =
  GetPointVelocity :: "Vec3 \<Rightarrow> Vec3"
  GetMotionType :: EMotionType
  GetUserData :: nat
  GetMaterial :: "SubShapeID \<Rightarrow> PhysicsMaterial"
  GetCenterOfMassPosition :: Vec3
  GetInverseInertia :: Mat44
  GetInverseMass :: real

record CollideShapeResult =
  mContactPointOn2 :: Vec3
  mPenetrationAxis :: Vec3
  mPenetrationDepth :: real
  mBodyID2 :: BodyID
  mSubShapeID2 :: SubShapeID

record ShapeCastResult = CollideShapeResult +
  mFraction_cast :: real

datatype EActiveEdgeMode = CollideOnlyWithActive | CollideWithAll

datatype EBackFaceMode = IgnoreBackFaces | CollideWithBackFaces

record CollideShapeSettings =
  mActiveEdgeMode :: EActiveEdgeMode
  mBackFaceMode :: EBackFaceMode
  mActiveEdgeMovementDirection :: Vec3
  mMaxSeparationDistance :: real

record ShapeCastSettings =
  mBackFaceModeTriangles :: EBackFaceMode
  mBackFaceModeConvex :: EBackFaceMode
  mActiveEdgeMode_cast :: EActiveEdgeMode
  mUseShrunkenShapeAndConvexRadius :: bool
  mReturnDeepestPoint :: bool

record ShapeCast =
  mShape_cast :: Shape
  mScale :: Vec3
  mCenterOfMassStart :: Mat44
  mDirection :: Vec3

text \<open>
  The three filters (broad phase layer, object layer, body) are opaque to the character:
  it hands them to the host unchanged. They travel together as one triple.
\<close>

type_synonym Filters = "nat \<times> nat \<times> nat"

text \<open>
  The physics system as the character sees it. \<open>CollideShape\<close> and \<open>CastShape\<close> give the
  hits the narrow phase offers to a collector, in the order it offers them.
  \<open>BodyLock id\<close> is the body a \<open>BodyLockRead\<close> or \<open>BodyLockWrite\<close> on \<open>id\<close> gives,
  and \<open>None\<close> when \<open>SucceededAndIsInBroadPhase()\<close> is false. \<open>AddImpulse\<close> is the
  host's effect of an impulse on its bodies; the character only calls it.
\<close>

record PhysicsSystem =
  CollideShape :: "Shape \<Rightarrow> Vec3 \<Rightarrow> Mat44 \<Rightarrow> CollideShapeSettings \<Rightarrow> Filters \<Rightarrow> CollideShapeResult list"
  CastShape :: "ShapeCast \<Rightarrow> ShapeCastSettings \<Rightarrow> Filters \<Rightarrow> ShapeCastResult list"
  BodyLock :: "BodyID \<Rightarrow> Body option"
  AddImpulse :: "BodyID \<Rightarrow> Vec3 \<Rightarrow> Vec3 \<Rightarrow> (BodyID \<Rightarrow> Body option) \<Rightarrow> BodyID \<Rightarrow> Body option"

section \<open>The character's data\<close>

text \<open>
  Modelled from the spec: the declarations of \<open>CharacterVirtual.h\<close> (the structs
  \<open>Contact\<close>, \<open>IgnoredContact\<close>, \<open>Constraint\<close>, the members of the class, the listener
  and the constants), which is not part of the sources at hand. Section 3 of the spec
  gives the fields and section 6 the constants with their reference values.
\<close>

definition cPredictiveContactDistance :: real where
  "cPredictiveContactDistance = 1 / 100"

definition cCharacterPadding :: real where
  "cCharacterPadding = 2 / 100"

definition cCollisionTolerance :: real where
  "cCollisionTolerance = 1 / 1000"

definition cMinTimeRemaining :: real where
  "cMinTimeRemaining = 1 / 10000"

definition cMaxCollisionIterations :: nat where
  "cMaxCollisionIterations = 5"

definition cMaxConstraintIterations :: nat where
  "cMaxConstraintIterations = 15"

definition cMaxNumHits :: nat where
  "cMaxNumHits = 256"

record Contact =
  mPosition :: Vec3
  mLinearVelocity :: Vec3
  mNormal :: Vec3
  mDistance :: real
  mFraction :: real
  mBodyB :: BodyID
  mSubShapeIDB :: SubShapeID
  mMotionTypeB :: EMotionType
  mUserData :: nat
  mMaterial :: PhysicsMaterial
  mHadCollision :: bool
  mWasDiscarded :: bool
  mCanPushCharacter :: bool

text \<open>
  Modelled from the spec: the default member initialisers of \<open>Contact\<close>. The three
  flags start as the spec's data model describes them (a new contact has not collided,
  is not discarded, and can push the character until a listener says otherwise); every
  other field is written by \<open>sFillContactProperties\<close> and \<open>AddHit\<close> before it is read.
\<close>

definition Contact_new :: Contact where
  "Contact_new = \<lparr> mPosition = 0, mLinearVelocity = 0, mNormal = 0, mDistance = 0,
     mFraction = 0, mBodyB = 0, mSubShapeIDB = 0, mMotionTypeB = Static, mUserData = 0,
     mMaterial = 0, mHadCollision = False, mWasDiscarded = False,
     mCanPushCharacter = True \<rparr>"

record IgnoredContact =
  mBodyID :: BodyID
  mSubShapeID :: SubShapeID

text \<open>
  A \<open>Constraint\<close> points to its contact; the pointer is the contact's index in the
  contact vector of the move iteration.
\<close>

record Constraint =
  mContact :: nat
  mTOI :: real
  mProjectedVelocity :: real
  mLinearVelocity_c :: Vec3
  mPlane :: Plane

record CharacterContactSettings =
  mCanPushCharacter_s :: bool
  mCanReceiveImpulses :: bool

text \<open>
  Modelled from the spec: the default member initialisers of \<open>CharacterContactSettings\<close>,
  which a listener may overwrite in \<open>OnContactAdded\<close>: without a listener a contact can
  push the character and its body can receive impulses.
\<close>

definition CharacterContactSettings_new :: CharacterContactSettings where
  "CharacterContactSettings_new = \<lparr> mCanPushCharacter_s = True, mCanReceiveImpulses = True \<rparr>"

text \<open>
  The listener's two callbacks, as functions of the arguments the source passes (the
  character itself left out).
\<close>

record CharacterContactListener =
  OnContactValidate :: "BodyID \<Rightarrow> SubShapeID \<Rightarrow> bool"
  OnContactAdded :: "BodyID \<Rightarrow> SubShapeID \<Rightarrow> Vec3 \<Rightarrow> Vec3 \<Rightarrow> CharacterContactSettings \<Rightarrow> CharacterContactSettings"

datatype EGroundState = OnGround | Sliding | InAir

text \<open>
  \<open>mSupportingContact\<close> points into \<open>mActiveContacts\<close>: it is the index of the contact.
  \<open>GetShapePosition\<close> is a member function declared in the header; its body is not in
  the sources, so it is a parameter of the character.
\<close>

record CharacterVirtual =
  mSystem :: "PhysicsSystem option"
  mShape :: "Shape option"
  mPosition_ch :: Vec3
  mRotation :: Quat
  mLinearVelocity_ch :: Vec3
  mCosMaxSlopeAngle :: real
  mMaxStrength :: real
  mMass :: real
  mPenetrationRecoverySpeed :: real
  mListener :: "CharacterContactListener option"
  mActiveContacts :: "Contact list"
  mSupportingContact :: "nat option"
  GetShapePosition :: "Vec3 \<Rightarrow> Vec3"

text \<open>
  Dereferencing a null \<open>mSystem\<close> or a null shape has no defined behaviour in C++; the
  model makes it a value, so that a path that never dereferences is told apart from one
  that does.
\<close>

datatype Fault = NullPointerDereference

section \<open>Library code\<close>

text \<open>
  \<open>std::sort\<close> with a comparison. The standard promises a permutation of the input
  that the comparison orders and leaves the order among elements it does not tell apart
  open; sorting by insertion fixes one such order.
\<close>

fun insert_with :: "('a \<Rightarrow> 'a \<Rightarrow> bool) \<Rightarrow> 'a \<Rightarrow> 'a list \<Rightarrow> 'a list" where
  "insert_with lt x [] = [x]"
| "insert_with lt x (y # ys) = (if lt x y then x # y # ys else y # insert_with lt x ys)"

fun sort_with :: "('a \<Rightarrow> 'a \<Rightarrow> bool) \<Rightarrow> 'a list \<Rightarrow> 'a list" where
  "sort_with lt [] = []"
| "sort_with lt (x # xs) = insert_with lt x (sort_with lt xs)"

text \<open>\<open>vector::erase(begin() + i)\<close>, for \<open>i\<close> in range.\<close>

definition erase :: "nat \<Rightarrow> 'a list \<Rightarrow> 'a list" where
  "erase i xs = take i xs @ drop (Suc i) xs"

section \<open>Contact discovery\<close>

text \<open>
  \<open>sFillContactProperties\<close>. The material comes from the collector's context, the
  transformed shape of the body that was hit; it is read from the body here.
\<close>

definition sFillContactProperties ::
  "Contact \<Rightarrow> Body \<Rightarrow> 'a CollideShapeResult_scheme \<Rightarrow> Contact" where
  "sFillContactProperties outContact inBody inResult =
     outContact\<lparr> mPosition := mContactPointOn2 inResult,
       mLinearVelocity := GetPointVelocity inBody (mContactPointOn2 inResult),
       mNormal := - NormalizedOr (mPenetrationAxis inResult) sZero,
       mDistance := - mPenetrationDepth inResult,
       mBodyB := mBodyID2 inResult,
       mSubShapeIDB := mSubShapeID2 inResult,
       mMotionTypeB := GetMotionType inBody,
       mUserData := GetUserData inBody,
       mMaterial := GetMaterial inBody (mSubShapeID2 inResult) \<rparr>"

text \<open>
  A collector is its contact vector and whether it has called \<open>ForceEarlyOut()\<close>.
\<close>

type_synonym Collector = "Contact list \<times> bool"

definition ContactCollector_AddHit ::
  "PhysicsSystem \<Rightarrow> Collector \<Rightarrow> CollideShapeResult \<Rightarrow> Collector" where
  "ContactCollector_AddHit sys col inResult =
     (case BodyLock sys (mBodyID2 inResult) of
        None \<Rightarrow> col
      | Some body \<Rightarrow>
          (let contact = (sFillContactProperties Contact_new body inResult)\<lparr> mFraction := 0 \<rparr>;
               mContacts = fst col @ [contact]
           in (mContacts, snd col \<or> length mContacts = cMaxNumHits)))"

definition ContactCastCollector_AddHit ::
  "PhysicsSystem \<Rightarrow> Vec3 \<Rightarrow> IgnoredContact list \<Rightarrow> Collector \<Rightarrow> ShapeCastResult \<Rightarrow> Collector" where
  "ContactCastCollector_AddHit sys mDisplacement mIgnoredContacts col inResult =
     (if mFraction_cast inResult > 0 \<and> Dot (mPenetrationAxis inResult) mDisplacement > 0 then
        if list_ex (\<lambda>c. mBodyID c = mBodyID2 inResult \<and> mSubShapeID c = mSubShapeID2 inResult)
             mIgnoredContacts
        then col
        else
          (case BodyLock sys (mBodyID2 inResult) of
             None \<Rightarrow> col
           | Some body \<Rightarrow>
               (let contact = (sFillContactProperties Contact_new body inResult)
                                \<lparr> mFraction := mFraction_cast inResult \<rparr>;
                    mContacts = fst col @ [contact]
                in (mContacts, snd col \<or> length mContacts = cMaxNumHits)))
      else col)"

text \<open>
  Modelled from the spec: the narrow phase query loop, which belongs to the host. It
  offers its hits to the collector one at a time and stops once the collector has
  signalled early-out ("the collector caps at \<open>MAX_NUM_HITS\<close> by signalling early-out").
\<close>

fun offer_hits :: "(Collector \<Rightarrow> 'h \<Rightarrow> Collector) \<Rightarrow> 'h list \<Rightarrow> Collector \<Rightarrow> Collector" where
  "offer_hits add_hit [] col = col"
| "offer_hits add_hit (h # hs) col =
     (if snd col then col else offer_hits add_hit hs (add_hit col h))"

text \<open>
  \<open>GetContactsAtPosition\<close>, with \<open>sys\<close> the system \<open>mSystem\<close> points to and \<open>inShape\<close> the
  shape the argument points to; the result is \<open>outContacts\<close>.
\<close>

definition GetContactsAtPosition ::
  "CharacterVirtual \<Rightarrow> PhysicsSystem \<Rightarrow> Vec3 \<Rightarrow> Vec3 \<Rightarrow> Shape \<Rightarrow> Filters \<Rightarrow> Contact list" where
  "GetContactsAtPosition this sys inPosition inMovementDirection inShape inFilters =
     (let transform = sRotation (mRotation this);
          transform = SetTranslation transform
                        (inPosition + Multiply3x3 transform (GetCenterOfMass inShape));
          settings = \<lparr> mActiveEdgeMode = CollideOnlyWithActive,
                       mBackFaceMode = CollideWithBackFaces,
                       mActiveEdgeMovementDirection = inMovementDirection,
                       mMaxSeparationDistance = cPredictiveContactDistance \<rparr>;
          outContacts = fst (offer_hits (ContactCollector_AddHit sys)
                               (CollideShape sys inShape (sReplicate 1) transform settings inFilters)
                               ([], False))
      in map (\<lambda>c. c\<lparr> mDistance := mDistance c - cCharacterPadding \<rparr>) outContacts)"

section \<open>Conflict pruning\<close>

definition cMinRequiredPenetration :: real where
  "cMinRequiredPenetration = 5 / 1000 + cCharacterPadding"

text \<open>
  The inner loop of \<open>RemoveConflictingContacts\<close> over \<open>c2\<close>, for a fixed \<open>c1 < c2\<close>. The
  third component tells whether the loop left through \<open>break\<close>, having erased the
  contact at \<open>c1\<close>. After \<open>erase\<close> of the contact at \<open>c2\<close> the source steps \<open>c2\<close> back
  and the loop header steps it forward again, so \<open>c2\<close> stays.
\<close>

function RemoveConflictingContacts_inner ::
  "nat \<Rightarrow> nat \<Rightarrow> Contact list \<Rightarrow> IgnoredContact list \<Rightarrow> Contact list \<times> IgnoredContact list \<times> bool" where
  "RemoveConflictingContacts_inner c1 c2 ioContacts outIgnoredContacts =
     (if c2 < length ioContacts then
        (let contact1 = ioContacts ! c1; contact2 = ioContacts ! c2 in
         if mBodyB contact1 = mBodyB contact2
            \<and> mDistance contact2 \<le> - cMinRequiredPenetration
            \<and> Dot (mNormal contact1) (mNormal contact2) < 0
         then
           if mDistance contact1 < mDistance contact2 then
             RemoveConflictingContacts_inner c1 c2 (erase c2 ioContacts)
               (outIgnoredContacts @ [\<lparr> mBodyID = mBodyB contact2, mSubShapeID = mSubShapeIDB contact2 \<rparr>])
           else
             (erase c1 ioContacts,
              outIgnoredContacts @ [\<lparr> mBodyID = mBodyB contact1, mSubShapeID = mSubShapeIDB contact1 \<rparr>],
              True)
         else RemoveConflictingContacts_inner c1 (Suc c2) ioContacts outIgnoredContacts)
      else (ioContacts, outIgnoredContacts, False))"
  by pat_completeness auto
termination
  by (relation "measure (\<lambda>(c1, c2, ioContacts, outIgnoredContacts). length ioContacts - c2)")
     (auto simp: erase_def)

declare RemoveConflictingContacts_inner.simps [simp del]

lemma length_erase: "i < length xs \<Longrightarrow> length (erase i xs) = length xs - 1"
  by (simp add: erase_def)

lemma RemoveConflictingContacts_inner_length:
  "RemoveConflictingContacts_inner c1 c2 cs ign = (cs', ign', brk) \<Longrightarrow> c1 < c2 \<Longrightarrow>
   length cs' \<le> length cs \<and> (brk \<longrightarrow> length cs' < length cs)"
proof (induction c1 c2 cs ign rule: RemoveConflictingContacts_inner.induct)
  case (1 c1 c2 ioContacts outIgnoredContacts)
  note unfold = RemoveConflictingContacts_inner.simps [of c1 c2 ioContacts outIgnoredContacts]
  show ?case
  proof (cases "c2 < length ioContacts")
    case False
    with "1.prems" show ?thesis
      by (simp add: unfold)
  next
    case in_range: True
    let ?conflict = "mBodyB (ioContacts ! c1) = mBodyB (ioContacts ! c2)
            \<and> mDistance (ioContacts ! c2) \<le> - cMinRequiredPenetration
            \<and> Dot (mNormal (ioContacts ! c1)) (mNormal (ioContacts ! c2)) < 0"
    show ?thesis
    proof (cases ?conflict)
      case False
      with in_range "1.prems" have
        "RemoveConflictingContacts_inner c1 (Suc c2) ioContacts outIgnoredContacts = (cs', ign', brk)"
        by (simp add: unfold Let_def)
      with "1.IH"(2) [OF in_range refl refl] False "1.prems"(2) show ?thesis
        by simp
    next
      case conflict: True
      show ?thesis
      proof (cases "mDistance (ioContacts ! c1) < mDistance (ioContacts ! c2)")
        case True
        with in_range conflict "1.prems" have
          "RemoveConflictingContacts_inner c1 c2 (erase c2 ioContacts)
             (outIgnoredContacts @ [\<lparr> mBodyID = mBodyB (ioContacts ! c2),
                                         mSubShapeID = mSubShapeIDB (ioContacts ! c2) \<rparr>])
           = (cs', ign', brk)"
          by (simp add: unfold Let_def)
        with "1.IH"(1) [OF in_range refl refl] conflict True "1.prems"(2)
        have "length cs' \<le> length (erase c2 ioContacts)
              \<and> (brk \<longrightarrow> length cs' < length (erase c2 ioContacts))"
          by simp
        with in_range show ?thesis
          by (auto simp: length_erase)
      next
        case False
        with in_range conflict "1.prems" have "cs' = erase c1 ioContacts"
          by (simp add: unfold Let_def)
        with in_range "1.prems"(2) show ?thesis
          by (auto simp: length_erase)
      qed
    qed
  qed
qed

text \<open>
  The outer loop over \<open>c1\<close>. When the inner loop has erased the contact at \<open>c1\<close> the
  source steps \<open>c1\<close> back before \<open>break\<close> and the loop header steps it forward, so the
  next round looks at the same index (for \<open>c1 = 0\<close> the unsigned index wraps to the
  largest \<open>size_t\<close> and back to \<open>0\<close>).
\<close>

function RemoveConflictingContacts_outer ::
  "nat \<Rightarrow> Contact list \<Rightarrow> IgnoredContact list \<Rightarrow> Contact list \<times> IgnoredContact list" where
  "RemoveConflictingContacts_outer c1 ioContacts outIgnoredContacts =
     (if c1 < length ioContacts then
        if mDistance (ioContacts ! c1) \<le> - cMinRequiredPenetration then
          (case RemoveConflictingContacts_inner c1 (Suc c1) ioContacts outIgnoredContacts of
             (ioContacts', outIgnoredContacts', brk) \<Rightarrow>
               if brk then RemoveConflictingContacts_outer c1 ioContacts' outIgnoredContacts'
               else RemoveConflictingContacts_outer (Suc c1) ioContacts' outIgnoredContacts')
        else RemoveConflictingContacts_outer (Suc c1) ioContacts outIgnoredContacts
      else (ioContacts, outIgnoredContacts))"
  by pat_completeness auto
termination
proof (relation "measure (\<lambda>(c1, ioContacts, outIgnoredContacts). length ioContacts - c1)",
    goal_cases)
  case 1
  show ?case by simp
next
  case (2 c1 ioContacts outIgnoredContacts x y xa ya)
  then have "RemoveConflictingContacts_inner c1 (Suc c1) ioContacts outIgnoredContacts
               = (x, xa, ya)"
    by simp
  from RemoveConflictingContacts_inner_length [OF this] 2(1,5) show ?case
    by auto
next
  case (3 c1 ioContacts outIgnoredContacts x y xa ya)
  then have "RemoveConflictingContacts_inner c1 (Suc c1) ioContacts outIgnoredContacts
               = (x, xa, ya)"
    by simp
  from RemoveConflictingContacts_inner_length [OF this] 3(1,5) show ?case
    by auto
next
  case (4 c1 ioContacts outIgnoredContacts)
  then show ?case by simp
qed

declare RemoveConflictingContacts_outer.simps [simp del]

definition RemoveConflictingContacts ::
  "Contact list \<Rightarrow> IgnoredContact list \<Rightarrow> Contact list \<times> IgnoredContact list" where
  "RemoveConflictingContacts ioContacts outIgnoredContacts =
     RemoveConflictingContacts_outer 0 ioContacts outIgnoredContacts"

section \<open>Sweep verification\<close>

definition ValidateContact :: "CharacterVirtual \<Rightarrow> Contact \<Rightarrow> bool" where
  "ValidateContact this inContact =
     (case mListener this of
        None \<Rightarrow> True
      | Some listener \<Rightarrow> OnContactValidate listener (mBodyB inContact) (mSubShapeIDB inContact))"

text \<open>
  \<open>GetFirstContactForSweep\<close>: \<open>Some\<close> of \<open>outContact\<close> when the source returns true,
  \<open>None\<close> when it returns false (and leaves \<open>outContact\<close> alone). \<open>sys\<close> and \<open>shape\<close> are
  what \<open>mSystem\<close> and \<open>mShape\<close> point to. The quotient in the corrected fraction has a
  divisor below zero, by the test that selects the contact.
\<close>

definition GetFirstContactForSweep ::
  "CharacterVirtual \<Rightarrow> PhysicsSystem \<Rightarrow> Shape \<Rightarrow> Vec3 \<Rightarrow> Vec3 \<Rightarrow> IgnoredContact list \<Rightarrow> Filters
     \<Rightarrow> Contact option" where
  "GetFirstContactForSweep this sys shape inPosition inDisplacement inIgnoredContacts inFilters =
     (if LengthSq inDisplacement < 1 / 10 ^ 8 then None
      else
        (let start = sRotation (mRotation this);
             start = SetTranslation start (inPosition + MultiplyPoint start (GetCenterOfMass shape));
             settings = \<lparr> mBackFaceModeTriangles = CollideWithBackFaces,
                          mBackFaceModeConvex = IgnoreBackFaces,
                          mActiveEdgeMode_cast = CollideOnlyWithActive,
                          mUseShrunkenShapeAndConvexRadius = True,
                          mReturnDeepestPoint = False \<rparr>;
             shape_cast = \<lparr> mShape_cast = shape, mScale = sReplicate 1,
                            mCenterOfMassStart = start, mDirection = inDisplacement \<rparr>;
             contacts = fst (offer_hits
                               (ContactCastCollector_AddHit sys inDisplacement inIgnoredContacts)
                               (CastShape sys shape_cast settings inFilters) ([], False))
         in if contacts = [] then None
            else
              (let contacts = sort_with (\<lambda>inLHS inRHS. mFraction inLHS < mFraction inRHS) contacts
               in case find (\<lambda>c. mDistance c + Dot (mNormal c) inDisplacement < - cCollisionTolerance
                                   \<and> ValidateContact this c) contacts of
                    None \<Rightarrow> None
                  | Some outContact \<Rightarrow>
                      Some (outContact\<lparr> mFraction :=
                              max 0 (mFraction outContact
                                     + cCharacterPadding / Dot (mNormal outContact) inDisplacement) \<rparr>))))"

section \<open>Constraint derivation\<close>

text \<open>
  \<open>Constraint()\<close> leaves \<open>mTOI\<close> and \<open>mProjectedVelocity\<close> without a value; the solver
  writes both before it reads them. They start at \<open>0\<close> here.
\<close>

definition Constraint_new :: Constraint where
  "Constraint_new = \<lparr> mContact = 0, mTOI = 0, mProjectedVelocity = 0, mLinearVelocity_c = 0,
                       mPlane = Plane 0 0 \<rparr>"

text \<open>
  The body of the loop of \<open>DetermineConstraints\<close> for the contact \<open>c\<close> stored at
  \<open>index\<close>. The horizontal normal is normalised without a guard, as in the source.
\<close>

definition DetermineConstraints_contact ::
  "CharacterVirtual \<Rightarrow> Vec3 \<Rightarrow> Contact \<Rightarrow> nat \<Rightarrow> Constraint list \<Rightarrow> Constraint list" where
  "DetermineConstraints_contact this inCharacterVelocity c index outConstraints =
     (let contact_velocity = mLinearVelocity c;
          contact_velocity =
            (if mDistance c < 0
             then contact_velocity
                    - smul (mPenetrationRecoverySpeed this) (smul (mDistance c) (mNormal c))
             else contact_velocity);
          relative_velocity = inCharacterVelocity - contact_velocity;
          projected_velocity = Dot (mNormal c) relative_velocity
      in if projected_velocity \<ge> 0 then outConstraints
         else
           (let constraint = Constraint_new\<lparr> mContact := index,
                               mLinearVelocity_c := contact_velocity,
                               mPlane := Plane (mNormal c) (mDistance c) \<rparr>;
                outConstraints = outConstraints @ [constraint]
            in if mCosMaxSlopeAngle this < 999 / 1000
                  \<and> GetY (mNormal c) \<ge> 0
                  \<and> GetY (mNormal c) < mCosMaxSlopeAngle this
               then
                 (let normal = Normalized (Vec3 (GetX (mNormal c)) 0 (GetZ (mNormal c)));
                      vertical_constraint = Constraint_new\<lparr> mContact := index,
                        mLinearVelocity_c := smul (Dot contact_velocity normal) normal,
                        mPlane := Plane normal (mDistance c / Dot normal (mNormal c)) \<rparr>
                  in outConstraints @ [vertical_constraint])
               else outConstraints))"

fun DetermineConstraints_loop ::
  "CharacterVirtual \<Rightarrow> Vec3 \<Rightarrow> Contact list \<Rightarrow> nat \<Rightarrow> Constraint list \<Rightarrow> Constraint list" where
  "DetermineConstraints_loop this inCharacterVelocity [] index outConstraints = outConstraints"
| "DetermineConstraints_loop this inCharacterVelocity (c # rest) index outConstraints =
     DetermineConstraints_loop this inCharacterVelocity rest (Suc index)
       (DetermineConstraints_contact this inCharacterVelocity c index outConstraints)"

definition DetermineConstraints ::
  "CharacterVirtual \<Rightarrow> Vec3 \<Rightarrow> Contact list \<Rightarrow> Constraint list \<Rightarrow> Constraint list" where
  "DetermineConstraints this inCharacterVelocity inContacts outConstraints =
     DetermineConstraints_loop this inCharacterVelocity inContacts 0 outConstraints"

section \<open>Impulse transfer\<close>

text \<open>
  \<open>HandleContact\<close>. The constraint's contact is reached through its pointer, that is,
  at its index in \<open>contacts\<close>; the result is the returned flag, the contacts (one of
  them with \<open>mCanPushCharacter\<close> written) and the system after \<open>AddImpulse\<close>. The
  quotients by \<open>inDeltaTime\<close>, by the effective mass and by the length of the gravity
  vector are unguarded in the source.
\<close>

definition HandleContact ::
  "CharacterVirtual \<Rightarrow> PhysicsSystem \<Rightarrow> Vec3 \<Rightarrow> Constraint \<Rightarrow> Contact list \<Rightarrow> Vec3 \<Rightarrow> real
     \<Rightarrow> bool \<times> Contact list \<times> PhysicsSystem" where
  "HandleContact this sys inVelocity ioConstraint contacts inGravity inDeltaTime =
     (let contact = contacts ! mContact ioConstraint in
      if \<not> ValidateContact this contact then (False, contacts, sys)
      else
        (let settings =
               (case mListener this of
                  None \<Rightarrow> CharacterContactSettings_new
                | Some listener \<Rightarrow>
                    OnContactAdded listener (mBodyB contact) (mSubShapeIDB contact)
                      (mPosition contact) (- mNormal contact) CharacterContactSettings_new);
             contact = contact\<lparr> mCanPushCharacter := mCanPushCharacter_s settings \<rparr>;
             contacts = contacts[mContact ioConstraint := contact]
         in if \<not> mCanReceiveImpulses settings \<or> mMotionTypeB contact \<noteq> Dynamic
            then (True, contacts, sys)
            else
              (case BodyLock sys (mBodyB contact) of
                 None \<Rightarrow> (False, contacts, sys)
               | Some body \<Rightarrow>
                   (let cDamping = 9 / 10;
                        cPenetrationResolution = 4 / 10;
                        relative_velocity = inVelocity - mLinearVelocity contact;
                        projected_velocity = Dot relative_velocity (mNormal contact);
                        delta_velocity = - projected_velocity * cDamping
                          - min (mDistance contact) 0 * cPenetrationResolution / inDeltaTime
                    in if delta_velocity < 0 then (True, contacts, sys)
                       else
                         (let center_of_mass = GetCenterOfMassPosition body;
                              inverse_inertia = GetInverseInertia body;
                              inverse_mass = GetInverseMass body;
                              jacobian = Cross (mPosition contact - center_of_mass) (mNormal contact);
                              inv_effective_mass =
                                Dot (Multiply3x3 inverse_inertia jacobian) jacobian + inverse_mass;
                              impulse = delta_velocity / inv_effective_mass;
                              max_impulse = mMaxStrength this * inDeltaTime;
                              impulse = min impulse max_impulse;
                              world_impulse = smul (- impulse) (mNormal contact);
                              normal_dot_gravity = Dot (mNormal contact) inGravity;
                              world_impulse =
                                (if normal_dot_gravity < 0
                                 then world_impulse
                                        - smul (mMass this * normal_dot_gravity / Length inGravity
                                                  * inDeltaTime) inGravity
                                 else world_impulse)
                          in (True, contacts,
                              sys\<lparr> BodyLock := AddImpulse sys (mBodyB contact) world_impulse
                                                  (mPosition contact) (BodyLock sys) \<rparr>))))))"

section \<open>The constraint solver\<close>

text \<open>
  The variables of \<open>SolveConstraints\<close> that its loop reads and writes. A pointer to a
  constraint is the constraint's index in \<open>ioConstraints\<close>, so \<open>sSorted\<close> (the vector
  \<open>sorted_constraints\<close>) and \<open>sPrevious\<close> (the first \<open>num_previous_contacts\<close> entries of
  \<open>previous_contacts\<close>) are lists of indices. \<open>sContacts\<close> is the contact vector the
  constraints point into and \<open>sSystem\<close> the physics system, both written through
  pointers by the source.
\<close>

record SolveState =
  sConstraints :: "Constraint list"
  sContacts :: "Contact list"
  sSorted :: "nat list"
  sVelocity :: Vec3
  sTimeRemaining :: real
  sTimeSimulated :: real
  sDisplacement :: Vec3
  sPrevious :: "nat list"
  sSystem :: PhysicsSystem

text \<open>Step (a): the body of the loop that calculates the time of impact of a constraint.\<close>

definition SolveConstraints_toi :: "Vec3 \<Rightarrow> Vec3 \<Rightarrow> real \<Rightarrow> Constraint \<Rightarrow> Constraint" where
  "SolveConstraints_toi velocity outDisplacement inTimeRemaining c =
     (let c = c\<lparr> mProjectedVelocity :=
                   Dot (GetNormal (mPlane c)) (mLinearVelocity_c c - velocity) \<rparr>
      in if mProjectedVelocity c < 1 / 10 ^ 6 then c\<lparr> mTOI := FLT_MAX \<rparr>
         else
           (let dist = SignedDistance (mPlane c) outDisplacement
            in if dist - mProjectedVelocity c * inTimeRemaining > - (1 / 10 ^ 4)
               then c\<lparr> mTOI := FLT_MAX \<rparr>
               else c\<lparr> mTOI := max 0 (dist / mProjectedVelocity c) \<rparr>))"

text \<open>
  Step (b): the comparison handed to \<open>sort\<close>. The last line compares the motion types
  with \<open>>\<close>, which on an \<open>enum class\<close> compares the enumerators' numbers. The parameter
  \<open>value_of\<close> is that numbering; the program runs with \<^const>\<open>EMotionType_value\<close>.
\<close>

definition SolveConstraints_less_by ::
  "(EMotionType \<Rightarrow> nat) \<Rightarrow> Contact list \<Rightarrow> Constraint \<Rightarrow> Constraint \<Rightarrow> bool" where
  "SolveConstraints_less_by value_of contacts inLHS inRHS =
     (if mTOI inLHS \<le> 0 \<and> mTOI inRHS \<le> 0
      then mProjectedVelocity inLHS > mProjectedVelocity inRHS
      else if mTOI inLHS \<noteq> mTOI inRHS then mTOI inLHS < mTOI inRHS
      else value_of (mMotionTypeB (contacts ! mContact inLHS))
             > value_of (mMotionTypeB (contacts ! mContact inRHS)))"

definition SolveConstraints_less :: "Contact list \<Rightarrow> Constraint \<Rightarrow> Constraint \<Rightarrow> bool" where
  "SolveConstraints_less = SolveConstraints_less_by EMotionType_value"

text \<open>
  Step (c): the loop that looks for the first valid constraint. It leaves in one of
  three ways: through \<open>return\<close> (the goal is reached), through \<open>break\<close> with the
  constraint to collide with, or at the end of the vector with every constraint discarded.
\<close>

datatype Found = ReachedGoal | Collide nat | AllDiscarded

fun SolveConstraints_find ::
  "CharacterVirtual \<Rightarrow> Vec3 \<Rightarrow> real \<Rightarrow> nat list \<Rightarrow> SolveState \<Rightarrow> Found \<times> SolveState" where
  "SolveConstraints_find this inGravity inDeltaTime [] st = (AllDiscarded, st)"
| "SolveConstraints_find this inGravity inDeltaTime (c # rest) st =
     (let constraint = sConstraints st ! c; k = mContact constraint in
      if mTOI constraint \<ge> sTimeRemaining st then (ReachedGoal, st)
      else if mWasDiscarded (sContacts st ! k)
      then SolveConstraints_find this inGravity inDeltaTime rest st
      else
        (let handled =
               (if \<not> mHadCollision (sContacts st ! k)
                then HandleContact this (sSystem st) (sVelocity st) constraint (sContacts st)
                       inGravity inDeltaTime
                else (True, sContacts st, sSystem st));
             contacts = fst (snd handled);
             st = st\<lparr> sSystem := snd (snd handled) \<rparr>
         in if \<not> fst handled
            then SolveConstraints_find this inGravity inDeltaTime rest
                   (st\<lparr> sContacts := contacts[k := (contacts ! k)\<lparr> mWasDiscarded := True \<rparr>] \<rparr>)
            else
              (let contacts = (if \<not> mHadCollision (sContacts st ! k)
                               then contacts[k := (contacts ! k)\<lparr> mHadCollision := True \<rparr>]
                               else contacts);
                   st = st\<lparr> sContacts := contacts \<rparr>;
                   st = (if \<not> mCanPushCharacter (contacts ! k)
                         then st\<lparr> sConstraints :=
                                   (sConstraints st)[c := constraint\<lparr> mLinearVelocity_c := sZero \<rparr>] \<rparr>
                         else st)
               in (Collide c, st))))"

text \<open>
  Step (f): the loop over the previous contacts, which keeps the highest penetration
  found so far and the constraint that has it.
\<close>

fun SolveConstraints_other ::
  "Constraint list \<Rightarrow> nat \<Rightarrow> Vec3 \<Rightarrow> Vec3 \<Rightarrow> nat list \<Rightarrow> real \<times> nat option \<Rightarrow> real \<times> nat option" where
  "SolveConstraints_other cs constraint plane_normal new_velocity [] acc = acc"
| "SolveConstraints_other cs constraint plane_normal new_velocity (c # rest) acc =
     SolveConstraints_other cs constraint plane_normal new_velocity rest
       (if c \<noteq> constraint then
          (let other_normal = GetNormal (mPlane (cs ! c));
               penetration = Dot (mLinearVelocity_c (cs ! c) - new_velocity) other_normal
           in if penetration > fst acc then
                (let dot = Dot other_normal plane_normal
                 in if dot < 984 / 1000 \<and> dot > - (984 / 1000) then (penetration, Some c) else acc)
              else acc)
        else acc)"

text \<open>
  One round of the solver's loop. The flag tells whether the source leaves the function
  (\<open>return\<close>) in this round.
\<close>

definition SolveConstraints_iteration ::
  "CharacterVirtual \<Rightarrow> Vec3 \<Rightarrow> real \<Rightarrow> SolveState \<Rightarrow> bool \<times> SolveState" where
  "SolveConstraints_iteration this inGravity inDeltaTime st =
     (let st = st\<lparr> sConstraints :=
                    map (SolveConstraints_toi (sVelocity st) (sDisplacement st) (sTimeRemaining st))
                        (sConstraints st) \<rparr>;
          st = st\<lparr> sSorted :=
                    sort_with (\<lambda>inLHS inRHS. SolveConstraints_less (sContacts st)
                                                (sConstraints st ! inLHS) (sConstraints st ! inRHS))
                              (sSorted st) \<rparr>
      in case SolveConstraints_find this inGravity inDeltaTime (sSorted st) st of
           (ReachedGoal, st) \<Rightarrow>
             (True, st\<lparr> sDisplacement := sDisplacement st + smul (sTimeRemaining st) (sVelocity st),
                        sTimeSimulated := sTimeSimulated st + sTimeRemaining st \<rparr>)
         | (AllDiscarded, st) \<Rightarrow>
             (True, st\<lparr> sDisplacement := sDisplacement st + smul (sTimeRemaining st) (sVelocity st),
                        sTimeSimulated := sTimeSimulated st + sTimeRemaining st \<rparr>)
         | (Collide c, st) \<Rightarrow>
             (let constraint = sConstraints st ! c;
                  st = st\<lparr> sDisplacement := sDisplacement st + smul (mTOI constraint) (sVelocity st),
                            sTimeRemaining := sTimeRemaining st - mTOI constraint,
                            sTimeSimulated := sTimeSimulated st + mTOI constraint \<rparr>
              in if sTimeRemaining st < cMinTimeRemaining then (True, st)
                 else
                   (let st = (if mTOI constraint > 1 / 10 ^ 4 then st\<lparr> sPrevious := [] \<rparr> else st);
                        plane_normal = GetNormal (mPlane constraint);
                        relative_velocity = sVelocity st - mLinearVelocity_c constraint;
                        new_velocity =
                          sVelocity st - smul (Dot relative_velocity plane_normal) plane_normal;
                        other_constraint =
                          snd (SolveConstraints_other (sConstraints st) c plane_normal new_velocity
                                 (sPrevious st) (0, None));
                        st =
                          (case other_constraint of
                             Some other \<Rightarrow>
                               (let cs = sConstraints st;
                                    other_normal = GetNormal (mPlane (cs ! other));
                                    slide_dir = Normalized (Cross plane_normal other_normal);
                                    velocity_in_slide_dir = smul (Dot new_velocity slide_dir) slide_dir;
                                    cs = cs[c := (cs ! c)\<lparr> mLinearVelocity_c :=
                                           mLinearVelocity_c (cs ! c)
                                             - smul (min 0 (Dot (mLinearVelocity_c (cs ! c)) other_normal))
                                                 other_normal \<rparr>];
                                    cs = cs[other := (cs ! other)\<lparr> mLinearVelocity_c :=
                                           mLinearVelocity_c (cs ! other)
                                             - smul (min 0 (Dot (mLinearVelocity_c (cs ! other)) plane_normal))
                                                 plane_normal \<rparr>];
                                    perpendicular_velocity =
                                      mLinearVelocity_c (cs ! c)
                                        - smul (Dot (mLinearVelocity_c (cs ! c)) slide_dir) slide_dir;
                                    other_perpendicular_velocity =
                                      mLinearVelocity_c (cs ! other)
                                        - smul (Dot (mLinearVelocity_c (cs ! other)) slide_dir) slide_dir
                                in st\<lparr> sConstraints := cs,
                                       sVelocity := velocity_in_slide_dir + perpendicular_velocity
                                                      + other_perpendicular_velocity \<rparr>)
                           | None \<Rightarrow> st\<lparr> sVelocity := new_velocity \<rparr>);
                        st = st\<lparr> sPrevious := sPrevious st @ [c] \<rparr>
                    in (LengthSq (sVelocity st) < 1 / 10 ^ 8, st))))"

text \<open>The \<open>for\<close> loop, by the number of rounds it may still run.\<close>

fun SolveConstraints_loop ::
  "nat \<Rightarrow> CharacterVirtual \<Rightarrow> Vec3 \<Rightarrow> real \<Rightarrow> SolveState \<Rightarrow> SolveState" where
  "SolveConstraints_loop 0 this inGravity inDeltaTime st = st"
| "SolveConstraints_loop (Suc n) this inGravity inDeltaTime st =
     (case SolveConstraints_iteration this inGravity inDeltaTime st of
        (True, st') \<Rightarrow> st'
      | (False, st') \<Rightarrow> SolveConstraints_loop n this inGravity inDeltaTime st')"

text \<open>
  \<open>SolveConstraints\<close>. The result holds \<open>outTimeSimulated\<close> and \<open>outDisplacement\<close>
  besides the constraints, the contacts and the system as the function leaves them.
\<close>

definition SolveConstraints ::
  "CharacterVirtual \<Rightarrow> PhysicsSystem \<Rightarrow> Vec3 \<Rightarrow> Vec3 \<Rightarrow> real \<Rightarrow> real \<Rightarrow> Constraint list \<Rightarrow> Contact list
     \<Rightarrow> SolveState" where
  "SolveConstraints this sys inVelocity inGravity inDeltaTime inTimeRemaining ioConstraints contacts =
     (let st = \<lparr> sConstraints = ioConstraints, sContacts = contacts,
                  sSorted = [0 ..< length ioConstraints], sVelocity = inVelocity,
                  sTimeRemaining = inTimeRemaining, sTimeSimulated = 0, sDisplacement = sZero,
                  sPrevious = [], sSystem = sys \<rparr>
      in if ioConstraints = []
         then st\<lparr> sDisplacement := smul inTimeRemaining inVelocity,
                   sTimeSimulated := inTimeRemaining \<rparr>
         else SolveConstraints_loop cMaxConstraintIterations this inGravity inDeltaTime st)"

section \<open>Supporting contact and ground state\<close>

text \<open>The second loop of \<open>UpdateSupportingContact\<close>: the pointer found so far and \<open>max_y\<close>.\<close>

fun UpdateSupportingContact_loop ::
  "Contact list \<Rightarrow> nat \<Rightarrow> nat option \<times> real \<Rightarrow> nat option \<times> real" where
  "UpdateSupportingContact_loop [] index acc = acc"
| "UpdateSupportingContact_loop (c # rest) index acc =
     UpdateSupportingContact_loop rest (Suc index)
       (if mHadCollision c \<and> snd acc < GetY (mNormal c) then (Some index, GetY (mNormal c)) else acc)"

definition UpdateSupportingContact :: "CharacterVirtual \<Rightarrow> CharacterVirtual" where
  "UpdateSupportingContact this =
     (let contacts =
            map (\<lambda>c. if \<not> mWasDiscarded c
                      then c\<lparr> mHadCollision := mHadCollision c \<or> mDistance c < cCollisionTolerance \<rparr>
                      else c)
                (mActiveContacts this)
      in this\<lparr> mActiveContacts := contacts,
               mSupportingContact := fst (UpdateSupportingContact_loop contacts 0 (None, - FLT_MAX)) \<rparr>)"

definition StoreActiveContacts :: "CharacterVirtual \<Rightarrow> Contact list \<Rightarrow> CharacterVirtual" where
  "StoreActiveContacts this inContacts =
     UpdateSupportingContact (this\<lparr> mActiveContacts := inContacts \<rparr>)"

definition GetGroundState :: "CharacterVirtual \<Rightarrow> EGroundState" where
  "GetGroundState this =
     (case mSupportingContact this of
        None \<Rightarrow> InAir
      | Some supporting \<Rightarrow>
          if mCosMaxSlopeAngle this < 999 / 1000
             \<and> GetY (mNormal (mActiveContacts this ! supporting)) \<ge> 0
             \<and> GetY (mNormal (mActiveContacts this ! supporting)) < mCosMaxSlopeAngle this
          then Sliding
          else OnGround)"

section \<open>Moving the shape\<close>

text \<open>
  The variables of \<open>MoveShape\<close>: the character (of which the loop can only change the
  system \<open>mSystem\<close> points to), the reference \<open>ioPosition\<close>, the local \<open>position\<close>,
  \<open>time_remaining\<close>, and what \<open>outActiveContacts\<close> points to (\<open>None\<close> for a null
  pointer).
\<close>

record MoveState =
  mvThis :: CharacterVirtual
  mvIoPosition :: Vec3
  mvPosition :: Vec3
  mvTimeRemaining :: real
  mvActiveContacts :: "Contact list option"

text \<open>
  The body of the loop of \<open>MoveShape\<close>, up to the update of the position and the time;
  the second component is \<open>displacement\<close>, which the loop tests afterwards. The body
  dereferences \<open>mSystem\<close> and \<open>mShape\<close> in its first call.
\<close>

definition MoveShape_iteration ::
  "Vec3 \<Rightarrow> Vec3 \<Rightarrow> Vec3 \<Rightarrow> real \<Rightarrow> Filters \<Rightarrow> MoveState \<Rightarrow> Fault + MoveState \<times> Vec3" where
  "MoveShape_iteration inVelocity movement_direction inGravity inDeltaTime inFilters st =
     (case (mSystem (mvThis st), mShape (mvThis st)) of
        (Some sys, Some shape) \<Rightarrow>
          (let this = mvThis st;
               contacts = GetContactsAtPosition this sys (mvPosition st) movement_direction shape
                            inFilters;
               pruned = RemoveConflictingContacts contacts [];
               contacts = fst pruned;
               ignored_contacts = snd pruned;
               constraints = DetermineConstraints this inVelocity contacts [];
               solved = SolveConstraints this sys inVelocity inGravity inDeltaTime
                          (mvTimeRemaining st) constraints contacts;
               contacts = sContacts solved;
               displacement = sDisplacement solved;
               time_simulated = sTimeSimulated solved;
               sys = sSystem solved;
               outActiveContacts = (case mvActiveContacts st of
                                      None \<Rightarrow> None
                                    | Some old \<Rightarrow> Some contacts);
               cast = GetFirstContactForSweep this sys shape (mvPosition st) displacement
                        ignored_contacts inFilters;
               displacement = (case cast of
                                 None \<Rightarrow> displacement
                               | Some cast_contact \<Rightarrow> smul (mFraction cast_contact) displacement);
               time_simulated = (case cast of
                                   None \<Rightarrow> time_simulated
                                 | Some cast_contact \<Rightarrow> time_simulated * mFraction cast_contact)
           in Inr (\<lparr> mvThis = this\<lparr> mSystem := Some sys \<rparr>,
                      mvIoPosition = mvIoPosition st + displacement,
                      mvPosition = mvPosition st + displacement,
                      mvTimeRemaining = mvTimeRemaining st - time_simulated,
                      mvActiveContacts = outActiveContacts \<rparr>,
                   displacement))
      | _ \<Rightarrow> Inl NullPointerDereference)"

text \<open>
  The loop of \<open>MoveShape\<close>, by the number of rounds it may still run: it goes on while
  \<open>time_remaining >= cMinTimeRemaining\<close> and leaves through \<open>break\<close> after a round whose
  displacement was too small.
\<close>

fun MoveShape_loop ::
  "nat \<Rightarrow> Vec3 \<Rightarrow> Vec3 \<Rightarrow> Vec3 \<Rightarrow> real \<Rightarrow> Filters \<Rightarrow> MoveState \<Rightarrow> Fault + MoveState" where
  "MoveShape_loop 0 inVelocity movement_direction inGravity inDeltaTime inFilters st = Inr st"
| "MoveShape_loop (Suc n) inVelocity movement_direction inGravity inDeltaTime inFilters st =
     (if mvTimeRemaining st \<ge> cMinTimeRemaining then
        (case MoveShape_iteration inVelocity movement_direction inGravity inDeltaTime inFilters st of
           Inl fault \<Rightarrow> Inl fault
         | Inr (st', displacement) \<Rightarrow>
             if LengthSq displacement < 1 / 10 ^ 8 then Inr st'
             else MoveShape_loop n inVelocity movement_direction inGravity inDeltaTime inFilters st')
      else Inr st)"

definition MoveShape ::
  "CharacterVirtual \<Rightarrow> Vec3 \<Rightarrow> Vec3 \<Rightarrow> Vec3 \<Rightarrow> real \<Rightarrow> Contact list option \<Rightarrow> Filters
     \<Rightarrow> Fault + MoveState" where
  "MoveShape this ioPosition inVelocity inGravity inDeltaTime outActiveContacts inFilters =
     (let position = GetShapePosition this ioPosition;
          movement_direction = NormalizedOr inVelocity sZero;
          time_remaining = inDeltaTime
      in MoveShape_loop cMaxCollisionIterations inVelocity movement_direction inGravity inDeltaTime
           inFilters
           \<lparr> mvThis = this, mvIoPosition = ioPosition, mvPosition = position,
             mvTimeRemaining = time_remaining, mvActiveContacts = outActiveContacts \<rparr>)"

text \<open>
  \<open>Update\<close> hands \<open>MoveShape\<close> references to its own \<open>mPosition\<close> and \<open>mActiveContacts\<close>;
  what \<open>MoveShape\<close> leaves in them is written back here. The new velocity is a quotient
  by \<open>inDeltaTime\<close>, unguarded in the source.
\<close>

definition Update :: "real \<Rightarrow> Vec3 \<Rightarrow> Filters \<Rightarrow> CharacterVirtual \<Rightarrow> Fault + CharacterVirtual" where
  "Update inDeltaTime inGravity inFilters this =
     (let old_position = mPosition_ch this
      in case MoveShape this (mPosition_ch this) (mLinearVelocity_ch this) inGravity inDeltaTime
                (Some (mActiveContacts this)) inFilters of
           Inl fault \<Rightarrow> Inl fault
         | Inr st \<Rightarrow>
             (let this = (mvThis st)\<lparr> mPosition_ch := mvIoPosition st,
                           mActiveContacts := (case mvActiveContacts st of
                                                 None \<Rightarrow> mActiveContacts (mvThis st)
                                               | Some contacts \<Rightarrow> contacts) \<rparr>;
                  this = this\<lparr> mLinearVelocity_ch :=
                                 sdiv (mPosition_ch this - old_position) inDeltaTime \<rparr>
              in Inr (UpdateSupportingContact this)))"

definition RefreshContacts :: "Filters \<Rightarrow> CharacterVirtual \<Rightarrow> Fault + CharacterVirtual" where
  "RefreshContacts inFilters this =
     (let position = GetShapePosition this (mPosition_ch this)
      in case (mSystem this, mShape this) of
           (Some sys, Some shape) \<Rightarrow>
             Inr (StoreActiveContacts this
                    (GetContactsAtPosition this sys position
                       (NormalizedOr (mLinearVelocity_ch this) sZero) shape inFilters))
         | _ \<Rightarrow> Inl NullPointerDereference)"

section \<open>Shape switching\<close>

text \<open>
  \<open>SetShape\<close>: the returned flag and the character afterwards. \<open>the\<close> reads a pointer
  that the tests before it have found not to be null.
\<close>

definition SetShape ::
  "Shape option \<Rightarrow> real \<Rightarrow> Filters \<Rightarrow> CharacterVirtual \<Rightarrow> bool \<times> CharacterVirtual" where
  "SetShape inShape inMaxPenetrationDepth inFilters this =
     (if mShape this = None \<or> mSystem this = None then (True, this\<lparr> mShape := inShape \<rparr>)
      else if inShape \<noteq> mShape this \<and> inShape \<noteq> None then
        (let contacts = GetContactsAtPosition this (the (mSystem this))
                          (GetShapePosition this (mPosition_ch this))
                          (NormalizedOr (mLinearVelocity_ch this) sZero) (the inShape) inFilters
         in if inMaxPenetrationDepth < FLT_MAX
               \<and> list_ex (\<lambda>c. mDistance c < - inMaxPenetrationDepth) contacts
            then (False, this)
            else
              (let this = StoreActiveContacts (this\<lparr> mShape := inShape \<rparr>) contacts
               in (mShape this = inShape, this)))
      else (mShape this = inShape, this))"

section \<open>Example inputs\<close>

text \<open>
  A small world for the concrete statements below: two capsule-like shapes, a body at
  rest, and a physics system whose overlap query offers the given hits, whose sweep
  finds nothing and whose bodies are all present (\<open>example_system\<close>) or all removed
  (\<open>removed_system\<close>).
\<close>

definition standing_shape :: Shape where
  "standing_shape = \<lparr> mAddress = 1, GetCenterOfMass = Vec3 0 1 0 \<rparr>"

definition crouching_shape :: Shape where
  "crouching_shape = \<lparr> mAddress = 2, GetCenterOfMass = Vec3 0 (1 / 2) 0 \<rparr>"

definition example_body :: "EMotionType \<Rightarrow> Body" where
  "example_body motion_type =
     \<lparr> GetPointVelocity = (\<lambda>p. Vec3 0 0 0), GetMotionType = motion_type, GetUserData = 0,
       GetMaterial = (\<lambda>sub_shape. 0), GetCenterOfMassPosition = Vec3 0 0 0,
       GetInverseInertia = Mat44 (Vec3 1 0 0) (Vec3 0 1 0) (Vec3 0 0 1) (Vec3 0 0 0),
       GetInverseMass = 1 \<rparr>"

definition example_system :: "CollideShapeResult list \<Rightarrow> PhysicsSystem" where
  "example_system hits =
     \<lparr> CollideShape = (\<lambda>shape scale transform settings filters. hits),
       CastShape = (\<lambda>shape_cast settings filters. []),
       BodyLock = (\<lambda>body. Some (example_body Static)),
       AddImpulse = (\<lambda>body impulse point bodies. bodies) \<rparr>"

definition removed_system :: PhysicsSystem where
  "removed_system =
     \<lparr> CollideShape = (\<lambda>shape scale transform settings filters. []),
       CastShape = (\<lambda>shape_cast settings filters. []),
       BodyLock = (\<lambda>body. None),
       AddImpulse = (\<lambda>body impulse point bodies. bodies) \<rparr>"

definition example_character :: "PhysicsSystem \<Rightarrow> CharacterVirtual" where
  "example_character sys =
     \<lparr> mSystem = Some sys, mShape = Some standing_shape, mPosition_ch = Vec3 0 0 0,
       mRotation = Quat 0 0 0 1, mLinearVelocity_ch = Vec3 0 0 0, mCosMaxSlopeAngle = 1 / 2,
       mMaxStrength = 100, mMass = 70, mPenetrationRecoverySpeed = 1, mListener = None,
       mActiveContacts = [], mSupportingContact = None, GetShapePosition = (\<lambda>p. p) \<rparr>"

definition example_filters :: Filters where
  "example_filters = (0, 0, 0)"

text \<open>A contact on body \<open>7\<close> with the given sub shape, normal, distance and motion type.\<close>

definition example_contact :: "SubShapeID \<Rightarrow> Vec3 \<Rightarrow> real \<Rightarrow> EMotionType \<Rightarrow> Contact" where
  "example_contact sub_shape normal distance motion_type =
     Contact_new\<lparr> mNormal := normal, mDistance := distance, mBodyB := 7,
                  mSubShapeIDB := sub_shape, mMotionTypeB := motion_type \<rparr>"

text \<open>A hit whose penetration axis points up: the character touches a ceiling.\<close>

definition ceiling_hit :: CollideShapeResult where
  "ceiling_hit = \<lparr> mContactPointOn2 = Vec3 0 2 0, mPenetrationAxis = Vec3 0 1 0,
                    mPenetrationDepth = 0, mBodyID2 = 7, mSubShapeID2 = 0 \<rparr>"

text \<open>A hit that overlaps the shape by one metre.\<close>

definition deep_hit :: CollideShapeResult where
  "deep_hit = \<lparr> mContactPointOn2 = Vec3 0 0 0, mPenetrationAxis = Vec3 0 (- 1) 0,
                 mPenetrationDepth = 1, mBodyID2 = 7, mSubShapeID2 = 0 \<rparr>"

text \<open>
  A listener that validates every contact, lets every contact push the character and
  lets every body receive impulses.
\<close>

definition accepting_listener :: CharacterContactListener where
  "accepting_listener =
     \<lparr> OnContactValidate = (\<lambda>body sub_shape. True),
       OnContactAdded = (\<lambda>body sub_shape point normal settings.
                           settings\<lparr> mCanPushCharacter_s := True, mCanReceiveImpulses := True \<rparr>) \<rparr>"

text \<open>
  A solver state with one constraint: a floor half a metre below a character that falls
  at one metre per second, with one second left.
\<close>

definition falling_state :: SolveState where
  "falling_state =
     \<lparr> sConstraints = [Constraint_new\<lparr> mPlane := Plane (Vec3 0 1 0) (1 / 2) \<rparr>],
       sContacts = [example_contact 0 (Vec3 0 1 0) (1 / 2) Static],
       sSorted = [0], sVelocity = Vec3 0 (- 1) 0, sTimeRemaining = 1, sTimeSimulated = 0,
       sDisplacement = Vec3 0 0 0, sPrevious = [], sSystem = removed_system \<rparr>"

text \<open>
  Three contacts on one thin wall of body \<open>7\<close>, all deeper than the conflict threshold,
  with normals that alternate between the two sides of the wall.
\<close>

definition thin_wall_contacts :: "Contact list" where
  "thin_wall_contacts =
     [example_contact 0 (Vec3 1 0 0) (- 1 / 10) Static,
      example_contact 1 (Vec3 (- 1) 0 0) (- 2 / 10) Static,
      example_contact 2 (Vec3 1 0 0) (- 3 / 10) Static]"

text \<open>
  Two constraints with the same time of impact of half a second, the first on a static
  and the second on a dynamic body.
\<close>

definition equal_toi_constraints :: "Constraint list" where
  "equal_toi_constraints =
     [Constraint_new\<lparr> mContact := 0, mTOI := 1 / 2, mProjectedVelocity := 1 \<rparr>,
      Constraint_new\<lparr> mContact := 1, mTOI := 1 / 2, mProjectedVelocity := 1 \<rparr>]"

definition static_and_dynamic_contacts :: "Contact list" where
  "static_and_dynamic_contacts =
     [example_contact 0 (Vec3 1 0 0) 0 Static, example_contact 1 (Vec3 1 0 0) 0 Dynamic]"

section \<open>Notions used in the statements\<close>

text \<open>
  Two contacts conflict when they are on the same body, both penetrate at least
  \<open>cMinRequiredPenetration\<close> deep, and their normals oppose each other.
\<close>

definition Conflicting :: "Contact \<Rightarrow> Contact \<Rightarrow> bool" where
  "Conflicting a b \<longleftrightarrow>
     mBodyB a = mBodyB b
     \<and> mDistance a \<le> - cMinRequiredPenetration
     \<and> mDistance b \<le> - cMinRequiredPenetration
     \<and> Dot (mNormal a) (mNormal b) < 0"

text \<open>No contact among the first \<open>n\<close> conflicts with a contact behind it.\<close>

definition no_conflict_before :: "nat \<Rightarrow> Contact list \<Rightarrow> bool" where
  "no_conflict_before n cs \<longleftrightarrow>
     (\<forall>i j. i < n \<and> i < j \<and> j < length cs \<longrightarrow> \<not> Conflicting (cs ! i) (cs ! j))"

text \<open>The entry of \<open>outIgnoredContacts\<close> that stands for a discarded contact.\<close>

definition ignored_of :: "Contact \<Rightarrow> IgnoredContact" where
  "ignored_of c = \<lparr> mBodyID = mBodyB c, mSubShapeID = mSubShapeIDB c \<rparr>"

text \<open>
  What pruning may do to a contact vector and the list of ignored contacts: some
  contacts \<open>ds\<close> leave the vector, their entries are appended to the list in the order
  in which they leave, and each of them conflicted with a contact of the vector that
  penetrates at least as deep.
\<close>

definition Pruned ::
  "Contact list \<Rightarrow> IgnoredContact list \<Rightarrow> Contact list \<Rightarrow> IgnoredContact list \<Rightarrow> bool" where
  "Pruned cs ign cs' ign' \<longleftrightarrow>
     (\<exists>ds. ign' = ign @ map ignored_of ds \<and> mset cs' + mset ds = mset cs
           \<and> (\<forall>d \<in> set ds. \<exists>k \<in> set cs. Conflicting k d \<and> mDistance k \<le> mDistance d))"

text \<open>The two fields of a constraint that step (a) of the solver writes.\<close>

definition toi_fields :: "Constraint \<Rightarrow> real \<times> real" where
  "toi_fields c = (mTOI c, mProjectedVelocity c)"

text \<open>
  What the loop of \<open>UpdateSupportingContact\<close> knows after the contacts \<open>pre\<close>: \<open>max_y\<close>
  bounds the \<open>normal.y\<close> of the contacts that had a collision, and the pointer, when
  set, is to one of them that attains it.
\<close>

definition supporting_so_far :: "Contact list \<Rightarrow> nat option \<times> real \<Rightarrow> bool" where
  "supporting_so_far pre acc =
     ((\<forall>c \<in> set pre. mHadCollision c \<longrightarrow> GetY (mNormal c) \<le> snd acc)
      \<and> (case fst acc of
           None \<Rightarrow> snd acc = - FLT_MAX
         | Some i \<Rightarrow> i < length pre \<and> mHadCollision (pre ! i)
                      \<and> GetY (mNormal (pre ! i)) = snd acc \<and> - FLT_MAX < snd acc))"

section \<open>Auxiliary facts\<close>

lemma Vec3_arith [simp]:
  "Vec3 a b c + Vec3 d e f = Vec3 (a + d) (b + e) (c + f)"
  "Vec3 a b c - Vec3 d e f = Vec3 (a - d) (b - e) (c - f)"
  "- Vec3 a b c = Vec3 (- a) (- b) (- c)"
  "(0 :: Vec3) = Vec3 0 0 0"
  by (simp_all add: plus_Vec3_def minus_Vec3_def uminus_Vec3_def zero_Vec3_def)

lemma Dot_commute: "Dot a b = Dot b a"
  by (simp add: Dot_def mult.commute)

section \<open>Ground state\<close>

text \<open>
  C5, as the code has it. \<open>GetGroundState\<close> returns \<open>InAir\<close> exactly when there is no
  supporting contact. With a supporting contact it returns \<open>Sliding\<close> when the slope
  limit is active (\<open>mCosMaxSlopeAngle < 0.999\<close>) and the supporting normal's \<open>y\<close> lies in
  \<open>[0, mCosMaxSlopeAngle)\<close>, and \<open>OnGround\<close> in every other case.
\<close>

theorem GetGroundState_cases:
  "(GetGroundState this = InAir \<longleftrightarrow> mSupportingContact this = None)
   \<and> (\<forall>i. mSupportingContact this = Some i
          \<and> mCosMaxSlopeAngle this < 999 / 1000
          \<and> 0 \<le> GetY (mNormal (mActiveContacts this ! i))
          \<and> GetY (mNormal (mActiveContacts this ! i)) < mCosMaxSlopeAngle this
        \<longrightarrow> GetGroundState this = Sliding)
   \<and> (\<forall>i. mSupportingContact this = Some i
          \<and> \<not> (mCosMaxSlopeAngle this < 999 / 1000
                \<and> 0 \<le> GetY (mNormal (mActiveContacts this ! i))
                \<and> GetY (mNormal (mActiveContacts this ! i)) < mCosMaxSlopeAngle this)
        \<longrightarrow> GetGroundState this = OnGround)"
  by (auto simp: GetGroundState_def split: option.splits)

text \<open>
  A character with slope limit \<open>cos = 1/2\<close> that stands on a contact whose normal has
  \<open>y = 1/4\<close> slides.
\<close>

theorem GetGroundState_cases_witness:
  "GetGroundState ((example_character removed_system)
      \<lparr> mActiveContacts := [example_contact 0 (Vec3 0 (1 / 4) 0) 0 Static],
        mSupportingContact := Some 0 \<rparr>) = Sliding"
  using GetGroundState_cases [of "(example_character removed_system)
      \<lparr> mActiveContacts := [example_contact 0 (Vec3 0 (1 / 4) 0) 0 Static],
        mSupportingContact := Some 0 \<rparr>"]
  by (simp add: example_character_def example_contact_def Contact_new_def)

text \<open>
  The claim as stated fails where the slope limit is switched off: with
  \<open>mCosMaxSlopeAngle = 1\<close> and a supporting normal with \<open>y = 1/2\<close>, which lies in
  \<open>[0, mCosMaxSlopeAngle)\<close>, the state is \<open>OnGround\<close> and not \<open>Sliding\<close>.
\<close>

theorem GetGroundState_no_limit_counterexample:
  "mSupportingContact ((example_character removed_system)
      \<lparr> mCosMaxSlopeAngle := 1,
        mActiveContacts := [example_contact 0 (Vec3 0 (1 / 2) 0) 0 Static],
        mSupportingContact := Some 0 \<rparr>) = Some 0
   \<and> 0 \<le> GetY (mNormal (example_contact 0 (Vec3 0 (1 / 2) 0) 0 Static))
   \<and> GetY (mNormal (example_contact 0 (Vec3 0 (1 / 2) 0) 0 Static)) < 1
   \<and> GetGroundState ((example_character removed_system)
      \<lparr> mCosMaxSlopeAngle := 1,
        mActiveContacts := [example_contact 0 (Vec3 0 (1 / 2) 0) 0 Static],
        mSupportingContact := Some 0 \<rparr>) = OnGround"
  by (simp add: GetGroundState_def example_character_def example_contact_def Contact_new_def)

section \<open>Shape switching\<close>

text \<open>
  C10. A character that has a shape and a physics system refuses a null shape:
  \<open>SetShape\<close> returns false and the character, with its shape and its active contacts,
  is what it was. No contact query takes place (the result does not depend on the system).
\<close>

theorem SetShape_null:
  assumes "mShape this \<noteq> None" and "mSystem this \<noteq> None"
  shows "SetShape None inMaxPenetrationDepth inFilters this = (False, this)"
  using assms by (simp add: SetShape_def)

theorem SetShape_null_witness:
  "SetShape None (1 / 100) example_filters (example_character (example_system [deep_hit]))
     = (False, example_character (example_system [deep_hit]))"
  using SetShape_null [of "example_character (example_system [deep_hit])" "1 / 100" example_filters]
  by (simp add: example_character_def)

text \<open>
  C7. The character is initialised (it has a shape and a valid system), the new shape
  is not null and differs from the current one, the penetration limit is below
  \<open>FLT_MAX\<close>, and the contact query for the new shape at the current position finds a
  contact with \<open>distance < - max_penetration_depth\<close>. Then \<open>SetShape\<close> returns false and
  the character is unchanged, its shape and active contacts included.
\<close>

theorem SetShape_refuses:
  assumes "mShape this = Some current" and "mSystem this = Some sys"
    and "inShape = Some new" and "inShape \<noteq> mShape this"
    and "inMaxPenetrationDepth < FLT_MAX"
    and "\<exists>c \<in> set (GetContactsAtPosition this sys (GetShapePosition this (mPosition_ch this))
                      (NormalizedOr (mLinearVelocity_ch this) sZero) new inFilters).
           mDistance c < - inMaxPenetrationDepth"
  shows "SetShape inShape inMaxPenetrationDepth inFilters this = (False, this)"
  using assms by (simp add: SetShape_def Let_def list_ex_iff)

text \<open>
  The contact query of \<open>SetShape\<close> takes place only for an initialised character: one
  without a shape or without a system takes any shape it is given and reports success.
\<close>

lemma SetShape_uninitialised:
  "mShape this = None \<or> mSystem this = None \<Longrightarrow>
   SetShape inShape inMaxPenetrationDepth inFilters this = (True, this\<lparr> mShape := inShape \<rparr>)"
  by (simp add: SetShape_def)

text \<open>
  Switching the example character from the standing to the crouching shape while a body
  overlaps the new shape by a metre is refused.
\<close>

theorem SetShape_refuses_witness:
  "SetShape (Some crouching_shape) (1 / 100) example_filters
     (example_character (example_system [deep_hit]))
   = (False, example_character (example_system [deep_hit]))"
  using SetShape_refuses [of "example_character (example_system [deep_hit])" standing_shape
      "example_system [deep_hit]" "Some crouching_shape" crouching_shape "1 / 100" example_filters]
  by (simp add: example_character_def example_system_def GetContactsAtPosition_def Let_def
        ContactCollector_AddHit_def sFillContactProperties_def deep_hit_def cMaxNumHits_def
        cCharacterPadding_def Contact_new_def FLT_MAX_def standing_shape_def crouching_shape_def)

section \<open>Supporting contact\<close>

text \<open>
  C9. After \<open>UpdateSupportingContact\<close>, every active contact that is not discarded and
  whose distance is below \<open>cCollisionTolerance\<close> has \<open>mHadCollision\<close> set, whatever the
  solver did with it. \<open>StoreActiveContacts\<close>, \<open>RefreshContacts\<close> and \<open>Update\<close> end with
  \<open>UpdateSupportingContact\<close>, so the same holds for the character they leave.
\<close>

theorem UpdateSupportingContact_flags:
  "(\<forall>c \<in> set (mActiveContacts (UpdateSupportingContact this)).
      \<not> mWasDiscarded c \<and> mDistance c < cCollisionTolerance \<longrightarrow> mHadCollision c)
   \<and> (\<forall>c \<in> set (mActiveContacts (StoreActiveContacts this inContacts)).
      \<not> mWasDiscarded c \<and> mDistance c < cCollisionTolerance \<longrightarrow> mHadCollision c)
   \<and> (\<forall>this'. RefreshContacts inFilters this = Inr this' \<longrightarrow>
        (\<forall>c \<in> set (mActiveContacts this').
           \<not> mWasDiscarded c \<and> mDistance c < cCollisionTolerance \<longrightarrow> mHadCollision c))
   \<and> (\<forall>this'. Update inDeltaTime inGravity inFilters this = Inr this' \<longrightarrow>
        (\<forall>c \<in> set (mActiveContacts this').
           \<not> mWasDiscarded c \<and> mDistance c < cCollisionTolerance \<longrightarrow> mHadCollision c))"
proof -
  have flags: "\<forall>c \<in> set (mActiveContacts (UpdateSupportingContact t)).
      \<not> mWasDiscarded c \<and> mDistance c < cCollisionTolerance \<longrightarrow> mHadCollision c" for t
    by (auto simp: UpdateSupportingContact_def Let_def)
  have store: "\<forall>c \<in> set (mActiveContacts (StoreActiveContacts this inContacts)).
      \<not> mWasDiscarded c \<and> mDistance c < cCollisionTolerance \<longrightarrow> mHadCollision c"
    unfolding StoreActiveContacts_def by (rule flags)
  have refresh: "\<forall>c \<in> set (mActiveContacts this').
      \<not> mWasDiscarded c \<and> mDistance c < cCollisionTolerance \<longrightarrow> mHadCollision c"
    if "RefreshContacts inFilters this = Inr this'" for this'
  proof -
    from that obtain t where "this' = UpdateSupportingContact t"
      by (auto simp: RefreshContacts_def StoreActiveContacts_def Let_def split: option.splits)
    with flags [of t] show ?thesis
      by simp
  qed
  have update: "\<forall>c \<in> set (mActiveContacts this').
      \<not> mWasDiscarded c \<and> mDistance c < cCollisionTolerance \<longrightarrow> mHadCollision c"
    if "Update inDeltaTime inGravity inFilters this = Inr this'" for this'
  proof -
    from that obtain t where "this' = UpdateSupportingContact t"
      by (auto simp: Update_def Let_def split: sum.splits)
    with flags [of t] show ?thesis
      by simp
  qed
  from flags [of this] store refresh update show ?thesis
    by blast
qed

text \<open>
  A contact three millimetres inside the padded shape that the solver never touched is
  flagged by proximity alone.
\<close>

theorem UpdateSupportingContact_flags_witness:
  "mHadCollision (example_contact 0 (Vec3 0 1 0) (- 3 / 1000) Static) = False
   \<and> mHadCollision (hd (mActiveContacts (UpdateSupportingContact
        ((example_character removed_system)
           \<lparr> mActiveContacts := [example_contact 0 (Vec3 0 1 0) (- 3 / 1000) Static] \<rparr>))))"
  using UpdateSupportingContact_flags [of "(example_character removed_system)
           \<lparr> mActiveContacts := [example_contact 0 (Vec3 0 1 0) (- 3 / 1000) Static] \<rparr>"]
  by (simp add: UpdateSupportingContact_def example_character_def example_contact_def
        Contact_new_def cCollisionTolerance_def)

text \<open>
  The loop, started on the contacts after \<open>pre\<close> with a pointer and a maximum that are
  right for \<open>pre\<close>, ends with a pointer and a maximum that are right for all contacts.
\<close>

lemma UpdateSupportingContact_loop_invariant:
  "supporting_so_far pre acc \<Longrightarrow> index = length pre \<Longrightarrow>
   supporting_so_far (pre @ cs) (UpdateSupportingContact_loop cs index acc)"
proof (induction cs arbitrary: pre acc index)
  case Nil
  then show ?case by simp
next
  case (Cons c cs)
  let ?acc = "if mHadCollision c \<and> snd acc < GetY (mNormal c)
              then (Some index, GetY (mNormal c)) else acc"
  have step: "supporting_so_far (pre @ [c]) ?acc"
  proof (cases "mHadCollision c \<and> snd acc < GetY (mNormal c)")
    case True
    have "- FLT_MAX \<le> snd acc"
      using Cons.prems(1) by (auto simp: supporting_so_far_def split: option.splits)
    with True Cons.prems show ?thesis
      by (auto simp: supporting_so_far_def nth_append)
  next
    case False
    with Cons.prems show ?thesis
      by (auto simp: supporting_so_far_def nth_append split: option.splits)
  qed
  from Cons.IH [OF step, of "Suc index"] Cons.prems(2) show ?case
    by (auto split: if_splits)
qed

text \<open>
  C4, as the code has it. When \<open>UpdateSupportingContact\<close> leaves a supporting contact,
  it points to an active contact with \<open>mHadCollision\<close> set whose \<open>normal.y\<close> is above
  \<open>-FLT_MAX\<close> and is the largest \<open>normal.y\<close> of the active contacts with \<open>mHadCollision\<close>
  set. Nothing bounds \<open>normal.y\<close> from below by zero.
\<close>

theorem UpdateSupportingContact_supporting:
  assumes "mSupportingContact (UpdateSupportingContact this) = Some i"
  shows "i < length (mActiveContacts (UpdateSupportingContact this))
         \<and> mHadCollision (mActiveContacts (UpdateSupportingContact this) ! i)
         \<and> - FLT_MAX < GetY (mNormal (mActiveContacts (UpdateSupportingContact this) ! i))
         \<and> (\<forall>c \<in> set (mActiveContacts (UpdateSupportingContact this)).
               mHadCollision c \<longrightarrow>
               GetY (mNormal c)
                 \<le> GetY (mNormal (mActiveContacts (UpdateSupportingContact this) ! i)))"
proof -
  let ?contacts = "mActiveContacts (UpdateSupportingContact this)"
  let ?acc = "UpdateSupportingContact_loop ?contacts 0 (None, - FLT_MAX)"
  have "supporting_so_far [] (None, - FLT_MAX)"
    by (simp add: supporting_so_far_def)
  from UpdateSupportingContact_loop_invariant [OF this, of 0 ?contacts]
  have inv: "supporting_so_far ?contacts ?acc"
    by simp
  have "mSupportingContact (UpdateSupportingContact this) = fst ?acc"
    by (simp add: UpdateSupportingContact_def Let_def)
  with assms have "fst ?acc = Some i"
    by simp
  with inv show ?thesis
    by (simp add: supporting_so_far_def)
qed

text \<open>
  Of a wall (\<open>normal.y = 0\<close>) and a gentle slope (\<open>normal.y = 1/2\<close>) that both touch the
  character, the slope supports it.
\<close>

theorem UpdateSupportingContact_supporting_witness:
  "mSupportingContact (UpdateSupportingContact ((example_character removed_system)
      \<lparr> mActiveContacts := [example_contact 0 (Vec3 1 0 0) 0 Static,
                             example_contact 1 (Vec3 0 (1 / 2) 0) 0 Static] \<rparr>)) = Some 1
   \<and> mHadCollision (mActiveContacts (UpdateSupportingContact ((example_character removed_system)
      \<lparr> mActiveContacts := [example_contact 0 (Vec3 1 0 0) 0 Static,
                             example_contact 1 (Vec3 0 (1 / 2) 0) 0 Static] \<rparr>)) ! 1)"
  using UpdateSupportingContact_supporting [of "(example_character removed_system)
      \<lparr> mActiveContacts := [example_contact 0 (Vec3 1 0 0) 0 Static,
                             example_contact 1 (Vec3 0 (1 / 2) 0) 0 Static] \<rparr>" 1]
  by (simp add: UpdateSupportingContact_def example_character_def example_contact_def
        Contact_new_def cCollisionTolerance_def FLT_MAX_def)

text \<open>
  The claim as stated fails under a ceiling: \<open>RefreshContacts\<close> on a character whose
  only hit has a penetration axis that points up stores one contact with normal
  \<open>(0, -1, 0)\<close>, flags it by proximity and makes it the supporting contact.
\<close>

theorem UpdateSupportingContact_ceiling_counterexample:
  "(case RefreshContacts example_filters (example_character (example_system [ceiling_hit])) of
      Inl fault \<Rightarrow> False
    | Inr this' \<Rightarrow>
        mSupportingContact this' = Some 0
        \<and> GetY (mNormal (mActiveContacts this' ! 0)) = - 1
        \<and> GetY (mNormal (mActiveContacts this' ! 0)) < 0)"
  by (simp add: RefreshContacts_def StoreActiveContacts_def UpdateSupportingContact_def
        example_character_def example_system_def GetContactsAtPosition_def Let_def
        ContactCollector_AddHit_def sFillContactProperties_def ceiling_hit_def cMaxNumHits_def
        cCharacterPadding_def Contact_new_def FLT_MAX_def cCollisionTolerance_def
        NormalizedOr_def Normalized_def LengthSq_def Length_def Dot_def sdiv_def sZero_def
        example_body_def)

section \<open>Update without time\<close>

lemma MoveShape_loop_no_time:
  "mvTimeRemaining st < cMinTimeRemaining \<Longrightarrow>
   MoveShape_loop n inVelocity movement_direction inGravity inDeltaTime inFilters st = Inr st"
  by (cases n) simp_all

text \<open>
  With \<open>inDeltaTime = 0\<close> the loop of \<open>MoveShape\<close> does not run once, whatever the
  velocity and the gravity are: it asks for \<open>time_remaining >= cMinTimeRemaining\<close>. So
  \<open>Update\<close> returns (it dereferences neither the system nor the shape) and the position
  is the old one.
\<close>

lemma Update_no_time:
  "\<exists>this'. Update 0 inGravity inFilters this = Inr this' \<and> mPosition_ch this' = mPosition_ch this"
  by (simp add: Update_def MoveShape_def Let_def MoveShape_loop_no_time cMinTimeRemaining_def
        UpdateSupportingContact_def)

text \<open>
  C8. \<open>Update\<close> with \<open>inDeltaTime = 0\<close> and no gravity, on a character whose linear
  velocity is zero, returns and leaves the position unchanged.
\<close>

theorem Update_zero_is_noop:
  assumes "mLinearVelocity_ch this = sZero"
  shows "\<exists>this'. Update 0 sZero inFilters this = Inr this'
                 \<and> mPosition_ch this' = mPosition_ch this"
  by (rule Update_no_time)

theorem Update_zero_is_noop_witness:
  "\<exists>this'. Update 0 sZero example_filters (example_character (example_system [deep_hit])) = Inr this'
           \<and> mPosition_ch this' = Vec3 0 0 0"
  using Update_zero_is_noop [of "example_character (example_system [deep_hit])" example_filters]
  by (simp add: example_character_def sZero_def)

section \<open>Impulse transfer\<close>

text \<open>
  C6, as the code has it. \<open>HandleContact\<close> returns false in exactly two cases: the
  listener vetoes the contact, or the contact passes validation, the listener lets the
  body receive impulses, the body is dynamic, and the lock on the body fails because the
  body has been removed. In every other case, among them a body that is not dynamic, a
  body that cannot receive impulses, and separating bodies, it returns true.
\<close>

theorem HandleContact_false_iff:
  "fst (HandleContact this sys inVelocity ioConstraint contacts inGravity inDeltaTime) = False
   \<longleftrightarrow>
   (let contact = contacts ! mContact ioConstraint;
        settings = (case mListener this of
                      None \<Rightarrow> CharacterContactSettings_new
                    | Some listener \<Rightarrow>
                        OnContactAdded listener (mBodyB contact) (mSubShapeIDB contact)
                          (mPosition contact) (- mNormal contact) CharacterContactSettings_new)
    in \<not> ValidateContact this contact
       \<or> (mCanReceiveImpulses settings \<and> mMotionTypeB contact = Dynamic
          \<and> BodyLock sys (mBodyB contact) = None))"
  by (auto simp: HandleContact_def Let_def split: option.splits)

text \<open>
  A static body, which cannot be pushed: the contact is accepted, although the body's
  lock would fail.
\<close>

theorem HandleContact_false_iff_witness:
  "fst (HandleContact ((example_character removed_system)\<lparr> mListener := Some accepting_listener \<rparr>)
          removed_system (Vec3 1 0 0) Constraint_new
          [example_contact 0 (Vec3 (- 1) 0 0) 0 Static] (Vec3 0 (- 10) 0) (1 / 60))"
  using HandleContact_false_iff [of
      "(example_character removed_system)\<lparr> mListener := Some accepting_listener \<rparr>"
      removed_system "Vec3 1 0 0" Constraint_new
      "[example_contact 0 (Vec3 (- 1) 0 0) 0 Static]" "Vec3 0 (- 10) 0" "1 / 60"]
  by (simp add: example_character_def accepting_listener_def Constraint_new_def
        example_contact_def Contact_new_def ValidateContact_def
        CharacterContactSettings_new_def)

text \<open>
  The claim as stated fails for a dynamic body that has been removed: the listener
  validates the contact and \<open>HandleContact\<close> still returns false.
\<close>

theorem HandleContact_removed_body_counterexample:
  "ValidateContact ((example_character removed_system)\<lparr> mListener := Some accepting_listener \<rparr>)
     (example_contact 0 (Vec3 (- 1) 0 0) 0 Dynamic)
   \<and> OnContactValidate accepting_listener 7 0
   \<and> fst (HandleContact ((example_character removed_system)\<lparr> mListener := Some accepting_listener \<rparr>)
          removed_system (Vec3 1 0 0) Constraint_new
          [example_contact 0 (Vec3 (- 1) 0 0) 0 Dynamic] (Vec3 0 (- 10) 0) (1 / 60)) = False"
  by (simp add: HandleContact_def Let_def example_character_def accepting_listener_def
        Constraint_new_def example_contact_def Contact_new_def ValidateContact_def
        CharacterContactSettings_new_def removed_system_def)

section \<open>The constraint solver\<close>

text \<open>
  The time of impact of one constraint, as step (a) calculates it from the solver's
  current velocity, displacement and remaining time.
\<close>

lemma SolveConstraints_toi_fields:
  "toi_fields (SolveConstraints_toi velocity outDisplacement inTimeRemaining c) =
     (let projected_velocity = Dot (GetNormal (mPlane c)) (mLinearVelocity_c c - velocity);
          dist = SignedDistance (mPlane c) outDisplacement
      in (if projected_velocity < 1 / 10 ^ 6 then FLT_MAX
          else if dist - projected_velocity * inTimeRemaining > - (1 / 10 ^ 4) then FLT_MAX
          else max 0 (dist / projected_velocity),
          projected_velocity))"
  by (simp add: SolveConstraints_toi_def toi_fields_def Let_def)

lemma toi_fields_velocity [simp]:
  "toi_fields (c\<lparr> mLinearVelocity_c := v \<rparr>) = toi_fields c"
  by (simp add: toi_fields_def)

lemma map_update_same:
  assumes "f y = f (xs ! i)"
  shows "map f (xs[i := y]) = map f xs"
proof (cases "i < length xs")
  case True
  then show ?thesis
    using assms by (simp add: map_update list_update_same_conv)
next
  case False
  then have "xs[i := y] = xs"
    using list_update_beyond [of xs i y] by linarith
  then show ?thesis
    by (simp only:)
qed

text \<open>Steps (c) to (h) write neither \<open>mTOI\<close> nor \<open>mProjectedVelocity\<close>.\<close>

lemma SolveConstraints_find_toi:
  "map toi_fields (sConstraints (snd (SolveConstraints_find this inGravity inDeltaTime cs st)))
     = map toi_fields (sConstraints st)"
proof (induction cs arbitrary: st)
  case Nil
  show ?case by simp
next
  case (Cons c rest)
  show ?case
    by (simp add: Let_def Cons.IH map_update_same)
qed

lemma SolveConstraints_iteration_toi:
  "map toi_fields (sConstraints (snd (SolveConstraints_iteration this inGravity inDeltaTime st)))
     = map (\<lambda>c. toi_fields (SolveConstraints_toi (sVelocity st) (sDisplacement st)
                               (sTimeRemaining st) c))
         (sConstraints st)"
proof -
  let ?st1 = "st\<lparr> sConstraints :=
                    map (SolveConstraints_toi (sVelocity st) (sDisplacement st) (sTimeRemaining st))
                        (sConstraints st) \<rparr>"
  let ?st2 = "?st1\<lparr> sSorted :=
                    sort_with (\<lambda>inLHS inRHS. SolveConstraints_less (sContacts ?st1)
                                                (sConstraints ?st1 ! inLHS) (sConstraints ?st1 ! inRHS))
                              (sSorted ?st1) \<rparr>"
  obtain r st3 where
    found: "SolveConstraints_find this inGravity inDeltaTime (sSorted ?st2) ?st2 = (r, st3)"
    by (cases "SolveConstraints_find this inGravity inDeltaTime (sSorted ?st2) ?st2")
  from SolveConstraints_find_toi [of this inGravity inDeltaTime "sSorted ?st2" ?st2] found
  have st3: "map toi_fields (sConstraints st3) = map toi_fields (sConstraints ?st2)"
    by simp
  have "map toi_fields (sConstraints (snd (SolveConstraints_iteration this inGravity inDeltaTime st)))
          = map toi_fields (sConstraints st3)"
    using found
    by (cases r)
       (simp_all add: SolveConstraints_iteration_def Let_def map_update_same
          split: option.splits)
  with st3 show ?thesis
    by simp
qed

text \<open>
  C1. Every round of the solver's loop begins by recalculating the time of impact of
  every constraint, and the rest of the round leaves the two values alone: for the
  constraint at any index \<open>i\<close>, the round ends with
  \<open>projected_velocity = plane_normal . (constraint.linear_velocity - velocity)\<close> and with
  \<open>toi = FLT_MAX\<close> (the source's value for "never") when \<open>projected_velocity < 1e-6\<close>
  or when \<open>dist - projected_velocity * time_remaining > -1e-4\<close>, and
  \<open>toi = max (0, dist / projected_velocity)\<close> otherwise, where \<open>dist\<close> is the signed
  distance of the displacement so far to the constraint's plane. Velocity, displacement,
  remaining time and constraint are those at the start of the round.
\<close>

theorem SolveConstraints_iteration_recomputes_toi:
  assumes "i < length (sConstraints st)"
  shows
    "(let c = sConstraints st ! i;
          c' = sConstraints (snd (SolveConstraints_iteration this inGravity inDeltaTime st)) ! i;
          projected_velocity = Dot (GetNormal (mPlane c)) (mLinearVelocity_c c - sVelocity st);
          dist = SignedDistance (mPlane c) (sDisplacement st)
      in mProjectedVelocity c' = projected_velocity
         \<and> mTOI c' =
             (if projected_velocity < 1 / 10 ^ 6 then FLT_MAX
              else if dist - projected_velocity * sTimeRemaining st > - (1 / 10 ^ 4) then FLT_MAX
              else max 0 (dist / projected_velocity)))"
proof -
  let ?cs' = "sConstraints (snd (SolveConstraints_iteration this inGravity inDeltaTime st))"
  let ?toi = "SolveConstraints_toi (sVelocity st) (sDisplacement st) (sTimeRemaining st)"
  have eq: "map toi_fields ?cs' = map (\<lambda>c. toi_fields (?toi c)) (sConstraints st)"
    by (rule SolveConstraints_iteration_toi)
  then have "length ?cs' = length (sConstraints st)"
    by (metis length_map)
  with assms have "map toi_fields ?cs' ! i = toi_fields (?cs' ! i)"
    by simp
  with eq assms have "toi_fields (?cs' ! i) = toi_fields (?toi (sConstraints st ! i))"
    by simp
  then show ?thesis
    by (simp add: SolveConstraints_toi_fields Let_def) (simp add: toi_fields_def)
qed

text \<open>
  The floor half a metre below the falling character of \<open>falling_state\<close> is reached
  after half a second.
\<close>

theorem SolveConstraints_iteration_recomputes_toi_witness:
  "mProjectedVelocity (sConstraints (snd (SolveConstraints_iteration
       (example_character removed_system) (Vec3 0 (- 10) 0) 1 falling_state)) ! 0) = 1
   \<and> mTOI (sConstraints (snd (SolveConstraints_iteration
       (example_character removed_system) (Vec3 0 (- 10) 0) 1 falling_state)) ! 0) = 1 / 2"
  using SolveConstraints_iteration_recomputes_toi [of 0 falling_state
      "example_character removed_system" "Vec3 0 (- 10) 0" 1]
  by (simp add: falling_state_def Constraint_new_def Let_def Dot_def SignedDistance_def)

text \<open>
  The last key of the comparison, for any numbering of the motion types: of two
  constraints with the same positive time of impact, the one whose body's motion type
  has the larger number comes first.
\<close>

lemma SolveConstraints_less_by_equal_toi:
  "mTOI inLHS = mTOI inRHS \<Longrightarrow> 0 < mTOI inLHS \<Longrightarrow>
   SolveConstraints_less_by value_of contacts inLHS inRHS
     \<longleftrightarrow> value_of (mMotionTypeB (contacts ! mContact inRHS))
           < value_of (mMotionTypeB (contacts ! mContact inLHS))"
  by (simp add: SolveConstraints_less_by_def)

text \<open>
  C2, at an input where the code departs from it. Both constraints have the time of
  impact \<open>1/2\<close>; the comparison puts the constraint on the dynamic body before the one
  on the static body and not the other way round, and sorting the two leaves the dynamic
  one first. \<open>EMotionType\<close> numbers \<open>Static\<close>, \<open>Kinematic\<close>, \<open>Dynamic\<close> as \<open>0, 1, 2\<close>
  and the source compares with \<open>>\<close>, under the comment "As a tie breaker sort static
  first so it has the most influence".
\<close>

theorem SolveConstraints_less_dynamic_before_static:
  "SolveConstraints_less static_and_dynamic_contacts
      (equal_toi_constraints ! 1) (equal_toi_constraints ! 0)
   \<and> \<not> SolveConstraints_less static_and_dynamic_contacts
      (equal_toi_constraints ! 0) (equal_toi_constraints ! 1)
   \<and> sort_with (\<lambda>inLHS inRHS. SolveConstraints_less static_and_dynamic_contacts
                   (equal_toi_constraints ! inLHS) (equal_toi_constraints ! inRHS)) [0, 1]
       = [1, 0]"
  by (simp add: SolveConstraints_less_def SolveConstraints_less_by_def
        static_and_dynamic_contacts_def equal_toi_constraints_def Constraint_new_def
        example_contact_def Contact_new_def)

section \<open>Conflict pruning\<close>

lemma Conflicting_commute: "Conflicting a b \<longleftrightarrow> Conflicting b a"
  by (auto simp: Conflicting_def Dot_commute)

lemma nth_erase:
  "k < length cs \<Longrightarrow> erase k cs ! j = (if j < k then cs ! j else cs ! Suc j)"
  by (simp add: erase_def nth_append min_def)

lemma erase_keeps_no_conflict:
  assumes "no_conflict_before n cs" and "n \<le> k" and "k < length cs"
  shows "no_conflict_before n (erase k cs)"
  unfolding no_conflict_before_def
proof (intro allI impI)
  fix i j
  assume ij: "i < n \<and> i < j \<and> j < length (erase k cs)"
  with assms have j: "j < length cs - 1" and i: "erase k cs ! i = cs ! i"
    by (simp_all add: length_erase nth_erase)
  show "\<not> Conflicting (erase k cs ! i) (erase k cs ! j)"
  proof (cases "j < k")
    case True
    with assms ij i j show ?thesis
      by (simp add: nth_erase no_conflict_before_def)
  next
    case False
    with assms(3) have "erase k cs ! j = cs ! Suc j"
      by (simp add: nth_erase)
    moreover from ij j assms(1) have "\<not> Conflicting (cs ! i) (cs ! Suc j)"
      by (simp add: no_conflict_before_def)
    ultimately show ?thesis
      using i by simp
  qed
qed

lemma mset_erase:
  "k < length cs \<Longrightarrow> mset (erase k cs) + {#cs ! k#} = mset cs"
proof -
  assume k: "k < length cs"
  then have "cs = take k cs @ cs ! k # drop (Suc k) cs"
    by (rule id_take_nth_drop)
  then have "mset cs = mset (take k cs @ cs ! k # drop (Suc k) cs)"
    by simp
  then show ?thesis
    by (simp add: erase_def)
qed

lemma Pruned_refl: "Pruned cs ign cs ign"
  unfolding Pruned_def by (rule exI [of _ "[]"]) simp

lemma Pruned_trans:
  assumes "Pruned cs ign cs2 ign2" and "Pruned cs2 ign2 cs3 ign3"
  shows "Pruned cs ign cs3 ign3"
proof -
  from assms(1) obtain ds where ds: "ign2 = ign @ map ignored_of ds" "mset cs2 + mset ds = mset cs"
    "\<forall>d \<in> set ds. \<exists>k \<in> set cs. Conflicting k d \<and> mDistance k \<le> mDistance d"
    unfolding Pruned_def by blast
  from assms(2) obtain es where es: "ign3 = ign2 @ map ignored_of es" "mset cs3 + mset es = mset cs2"
    "\<forall>d \<in> set es. \<exists>k \<in> set cs2. Conflicting k d \<and> mDistance k \<le> mDistance d"
    unfolding Pruned_def by blast
  from ds(2) have "set_mset (mset cs2) \<subseteq> set_mset (mset cs)"
    by (metis mset_subset_eq_add_left set_mset_mono)
  then have sub: "set cs2 \<subseteq> set cs"
    by simp
  have "ign3 = ign @ map ignored_of (ds @ es)"
    using ds(1) es(1) by simp
  moreover have "mset cs3 + mset (ds @ es) = mset cs"
    using ds(2) [symmetric] es(2) [symmetric] by (simp add: ac_simps)
  moreover have "\<forall>d \<in> set (ds @ es). \<exists>k \<in> set cs. Conflicting k d \<and> mDistance k \<le> mDistance d"
  proof
    fix d
    assume "d \<in> set (ds @ es)"
    then consider "d \<in> set ds" | "d \<in> set es"
      by auto
    then show "\<exists>k \<in> set cs. Conflicting k d \<and> mDistance k \<le> mDistance d"
    proof cases
      case 1
      with ds(3) show ?thesis by blast
    next
      case 2
      with es(3) obtain k where "k \<in> set cs2" "Conflicting k d \<and> mDistance k \<le> mDistance d"
        by blast
      with sub show ?thesis by blast
    qed
  qed
  ultimately show ?thesis
    unfolding Pruned_def by blast
qed

lemma Pruned_erase:
  assumes "k < length cs" and "p < length cs" and "Conflicting (cs ! p) (cs ! k)"
    and "mDistance (cs ! p) \<le> mDistance (cs ! k)"
  shows "Pruned cs ign (erase k cs) (ign @ [ignored_of (cs ! k)])"
  unfolding Pruned_def
proof (intro exI [of _ "[cs ! k]"] conjI)
  show "ign @ [ignored_of (cs ! k)] = ign @ map ignored_of [cs ! k]"
    by simp
  show "mset (erase k cs) + mset [cs ! k] = mset cs"
    using mset_erase [OF assms(1)] by simp
  show "\<forall>d \<in> set [cs ! k]. \<exists>k \<in> set cs. Conflicting k d \<and> mDistance k \<le> mDistance d"
    using assms by (auto intro: bexI [of _ "cs ! p"])
qed


lemma RemoveConflictingContacts_inner_no_conflict:
  "RemoveConflictingContacts_inner c1 c2 cs ign = (cs', ign', brk) \<Longrightarrow> c1 < c2 \<Longrightarrow>
   mDistance (cs ! c1) \<le> - cMinRequiredPenetration \<Longrightarrow>
   no_conflict_before c1 cs \<Longrightarrow>
   (\<forall>j. c1 < j \<and> j < c2 \<and> j < length cs \<longrightarrow> \<not> Conflicting (cs ! c1) (cs ! j)) \<Longrightarrow>
   no_conflict_before (if brk then c1 else Suc c1) cs'"
proof (induction c1 c2 cs ign rule: RemoveConflictingContacts_inner.induct)
  case (1 c1 c2 ioContacts outIgnoredContacts)
  note unfold = RemoveConflictingContacts_inner.simps [of c1 c2 ioContacts outIgnoredContacts]
  show ?case
  proof (cases "c2 < length ioContacts")
    case False
    with "1.prems"(1) have res: "cs' = ioContacts" "\<not> brk"
      by (simp_all add: unfold)
    have "no_conflict_before (Suc c1) ioContacts"
      unfolding no_conflict_before_def
    proof (intro allI impI)
      fix i j
      assume ij: "i < Suc c1 \<and> i < j \<and> j < length ioContacts"
      show "\<not> Conflicting (ioContacts ! i) (ioContacts ! j)"
      proof (cases "i = c1")
        case True
        with ij False "1.prems"(5) show ?thesis by simp
      next
        case False
        with ij "1.prems"(4) show ?thesis
          by (simp add: no_conflict_before_def)
      qed
    qed
    with res show ?thesis by simp
  next
    case in_range: True
    let ?conflict = "mBodyB (ioContacts ! c1) = mBodyB (ioContacts ! c2)
            \<and> mDistance (ioContacts ! c2) \<le> - cMinRequiredPenetration
            \<and> Dot (mNormal (ioContacts ! c1)) (mNormal (ioContacts ! c2)) < 0"
    show ?thesis
    proof (cases ?conflict)
      case False
      with in_range "1.prems"(1) have call:
        "RemoveConflictingContacts_inner c1 (Suc c2) ioContacts outIgnoredContacts = (cs', ign', brk)"
        by (simp add: unfold Let_def)
      from False have "\<not> Conflicting (ioContacts ! c1) (ioContacts ! c2)"
        by (auto simp: Conflicting_def)
      with "1.prems"(5) have
        "\<forall>j. c1 < j \<and> j < Suc c2 \<and> j < length ioContacts
             \<longrightarrow> \<not> Conflicting (ioContacts ! c1) (ioContacts ! j)"
        by (auto simp: less_Suc_eq)
      with "1.IH"(2) [OF in_range refl refl _ call] False "1.prems"(2,3,4) show ?thesis
        by simp
    next
      case conflict: True
      show ?thesis
      proof (cases "mDistance (ioContacts ! c1) < mDistance (ioContacts ! c2)")
        case True
        let ?cs = "erase c2 ioContacts"
        from True in_range conflict "1.prems"(1) have call:
          "RemoveConflictingContacts_inner c1 c2 ?cs
             (outIgnoredContacts @ [\<lparr> mBodyID = mBodyB (ioContacts ! c2),
                                         mSubShapeID = mSubShapeIDB (ioContacts ! c2) \<rparr>])
           = (cs', ign', brk)"
          by (simp add: unfold Let_def)
        have same: "?cs ! j = ioContacts ! j" if "j < c2" for j
          using that in_range by (simp add: nth_erase)
        have a: "mDistance (?cs ! c1) \<le> - cMinRequiredPenetration"
          using same [OF "1.prems"(2)] "1.prems"(3) by simp
        have b: "no_conflict_before c1 ?cs"
          using erase_keeps_no_conflict [OF "1.prems"(4) _ in_range] "1.prems"(2) by simp
        have c: "\<forall>j. c1 < j \<and> j < c2 \<and> j < length ?cs \<longrightarrow> \<not> Conflicting (?cs ! c1) (?cs ! j)"
          using same "1.prems"(2,5) in_range by (simp add: length_erase)
        from "1.IH"(1) [OF in_range refl refl _ _ call "1.prems"(2) a b c] conflict True
        show ?thesis
          by simp
      next
        case False
        with in_range conflict "1.prems"(1) have res: "cs' = erase c1 ioContacts" "brk"
          by (simp_all add: unfold Let_def)
        from in_range "1.prems"(2) have "c1 < length ioContacts"
          by simp
        from erase_keeps_no_conflict [OF "1.prems"(4) le_refl this] res show ?thesis
          by simp
      qed
    qed
  qed
qed


lemma RemoveConflictingContacts_inner_pruned:
  "RemoveConflictingContacts_inner c1 c2 cs ign = (cs', ign', brk) \<Longrightarrow> c1 < c2 \<Longrightarrow>
   mDistance (cs ! c1) \<le> - cMinRequiredPenetration \<Longrightarrow>
   Pruned cs ign cs' ign'"
proof (induction c1 c2 cs ign rule: RemoveConflictingContacts_inner.induct)
  case (1 c1 c2 ioContacts outIgnoredContacts)
  note unfold = RemoveConflictingContacts_inner.simps [of c1 c2 ioContacts outIgnoredContacts]
  show ?case
  proof (cases "c2 < length ioContacts")
    case False
    with "1.prems"(1) show ?thesis
      by (simp add: unfold Pruned_refl)
  next
    case in_range: True
    with "1.prems"(2) have c1_range: "c1 < length ioContacts"
      by simp
    let ?conflict = "mBodyB (ioContacts ! c1) = mBodyB (ioContacts ! c2)
            \<and> mDistance (ioContacts ! c2) \<le> - cMinRequiredPenetration
            \<and> Dot (mNormal (ioContacts ! c1)) (mNormal (ioContacts ! c2)) < 0"
    show ?thesis
    proof (cases ?conflict)
      case False
      with in_range "1.prems"(1) have call:
        "RemoveConflictingContacts_inner c1 (Suc c2) ioContacts outIgnoredContacts = (cs', ign', brk)"
        by (simp add: unfold Let_def)
      from "1.IH"(2) [OF in_range refl refl _ call] False "1.prems"(2,3) show ?thesis
        by simp
    next
      case conflict: True
      with "1.prems"(3) have conflicting: "Conflicting (ioContacts ! c1) (ioContacts ! c2)"
        by (simp add: Conflicting_def)
      show ?thesis
      proof (cases "mDistance (ioContacts ! c1) < mDistance (ioContacts ! c2)")
        case True
        let ?cs = "erase c2 ioContacts"
        let ?ign = "outIgnoredContacts @ [ignored_of (ioContacts ! c2)]"
        from True in_range conflict "1.prems"(1) have call:
          "RemoveConflictingContacts_inner c1 c2 ?cs
             (outIgnoredContacts @ [\<lparr> mBodyID = mBodyB (ioContacts ! c2),
                                         mSubShapeID = mSubShapeIDB (ioContacts ! c2) \<rparr>])
           = (cs', ign', brk)"
          by (simp add: unfold Let_def)
        have a: "mDistance (?cs ! c1) \<le> - cMinRequiredPenetration"
          using "1.prems"(2,3) in_range by (simp add: nth_erase)
        from "1.IH"(1) [OF in_range refl refl _ _ call "1.prems"(2) a] conflict True
        have rest: "Pruned ?cs ?ign cs' ign'"
          by (simp add: ignored_of_def)
        from True have "mDistance (ioContacts ! c1) \<le> mDistance (ioContacts ! c2)"
          by simp
        from Pruned_erase [OF in_range c1_range conflicting this]
        have "Pruned ioContacts outIgnoredContacts ?cs ?ign" .
        from Pruned_trans [OF this rest] show ?thesis .
      next
        case False
        with in_range conflict "1.prems"(1) have res: "cs' = erase c1 ioContacts"
          "ign' = outIgnoredContacts @ [ignored_of (ioContacts ! c1)]"
          by (simp_all add: unfold Let_def ignored_of_def)
        from False have le: "mDistance (ioContacts ! c2) \<le> mDistance (ioContacts ! c1)"
          by simp
        from conflicting have "Conflicting (ioContacts ! c2) (ioContacts ! c1)"
          by (simp add: Conflicting_commute)
        from Pruned_erase [OF c1_range in_range this le] res show ?thesis
          by simp
      qed
    qed
  qed
qed

lemma no_conflict_before_beyond:
  "no_conflict_before n cs \<Longrightarrow> length cs \<le> n \<Longrightarrow> no_conflict_before (length cs) cs"
  by (auto simp: no_conflict_before_def)

lemma no_conflict_before_Suc:
  assumes "no_conflict_before n cs" and "\<not> mDistance (cs ! n) \<le> - cMinRequiredPenetration"
  shows "no_conflict_before (Suc n) cs"
  unfolding no_conflict_before_def
proof (intro allI impI)
  fix i j
  assume ij: "i < Suc n \<and> i < j \<and> j < length cs"
  show "\<not> Conflicting (cs ! i) (cs ! j)"
  proof (cases "i = n")
    case True
    with assms(2) show ?thesis
      by (simp add: Conflicting_def)
  next
    case False
    with ij assms(1) show ?thesis
      by (simp add: no_conflict_before_def)
  qed
qed

lemma RemoveConflictingContacts_outer_result:
  "RemoveConflictingContacts_outer c1 cs ign = (cs', ign') \<Longrightarrow> no_conflict_before c1 cs \<Longrightarrow>
   no_conflict_before (length cs') cs' \<and> Pruned cs ign cs' ign'"
proof (induction c1 cs ign rule: RemoveConflictingContacts_outer.induct)
  case (1 c1 ioContacts outIgnoredContacts)
  note unfold = RemoveConflictingContacts_outer.simps [of c1 ioContacts outIgnoredContacts]
  show ?case
  proof (cases "c1 < length ioContacts")
    case False
    with "1.prems" show ?thesis
      by (simp add: unfold Pruned_refl no_conflict_before_beyond)
  next
    case in_range: True
    show ?thesis
    proof (cases "mDistance (ioContacts ! c1) \<le> - cMinRequiredPenetration")
      case False
      with in_range "1.prems"(1) have call:
        "RemoveConflictingContacts_outer (Suc c1) ioContacts outIgnoredContacts = (cs', ign')"
        by (simp add: unfold)
      from no_conflict_before_Suc [OF "1.prems"(2) False]
      have "no_conflict_before (Suc c1) ioContacts" .
      from "1.IH"(3) [OF in_range False call this] show ?thesis .
    next
      case penetrating: True
      obtain cs2 ign2 brk where inner:
        "RemoveConflictingContacts_inner c1 (Suc c1) ioContacts outIgnoredContacts = (cs2, ign2, brk)"
        by (cases "RemoveConflictingContacts_inner c1 (Suc c1) ioContacts outIgnoredContacts")
      have "\<forall>j. c1 < j \<and> j < Suc c1 \<and> j < length ioContacts
                 \<longrightarrow> \<not> Conflicting (ioContacts ! c1) (ioContacts ! j)"
        by auto
      from RemoveConflictingContacts_inner_no_conflict
             [OF inner lessI penetrating "1.prems"(2) this]
      have clean2: "no_conflict_before (if brk then c1 else Suc c1) cs2" .
      have pruned2: "Pruned ioContacts outIgnoredContacts cs2 ign2"
        using RemoveConflictingContacts_inner_pruned [OF inner lessI penetrating] .
      show ?thesis
      proof (cases brk)
        case True
        with in_range penetrating inner "1.prems"(1) have call:
          "RemoveConflictingContacts_outer c1 cs2 ign2 = (cs', ign')"
          by (simp add: unfold)
        from clean2 True have "no_conflict_before c1 cs2"
          by simp
        from "1.IH"(1) [OF in_range penetrating inner [symmetric] refl True call this]
          Pruned_trans [OF pruned2]
        show ?thesis
          by blast
      next
        case False
        with in_range penetrating inner "1.prems"(1) have call:
          "RemoveConflictingContacts_outer (Suc c1) cs2 ign2 = (cs', ign')"
          by (simp add: unfold)
        from clean2 False have "no_conflict_before (Suc c1) cs2"
          by simp
        from "1.IH"(2) [OF in_range penetrating inner [symmetric] refl False call this]
          Pruned_trans [OF pruned2]
        show ?thesis
          by blast
      qed
    qed
  qed
qed

text \<open>
  C3. \<open>RemoveConflictingContacts\<close> returns for every contact vector, and in the vector
  it leaves no two contacts conflict: no pair on the same body, both with
  \<open>distance \<le> -cMinRequiredPenetration\<close>, has normals with a negative dot product. The
  list of ignored contacts grows at its end by the \<open>(body, sub shape)\<close> entries of the
  discarded contacts \<open>ds\<close>, which together with the survivors are the contacts that came
  in; and each discarded contact conflicted with a contact that penetrates at least as
  deep, so that of a conflicting pair the deeper contact is the one kept.
\<close>

theorem RemoveConflictingContacts_prunes:
  "(let cs' = fst (RemoveConflictingContacts cs ign);
        ign' = snd (RemoveConflictingContacts cs ign)
    in (\<forall>i j. i < j \<and> j < length cs' \<longrightarrow> \<not> Conflicting (cs' ! i) (cs' ! j))
       \<and> (\<exists>ds. ign' = ign @ map (\<lambda>d. \<lparr> mBodyID = mBodyB d, mSubShapeID = mSubShapeIDB d \<rparr>) ds
                \<and> mset cs' + mset ds = mset cs
                \<and> (\<forall>d \<in> set ds. \<exists>k \<in> set cs. Conflicting k d \<and> mDistance k \<le> mDistance d)))
   \<and> cMinRequiredPenetration = 5 / 1000 + cCharacterPadding"
proof -
  obtain cs' ign' where res: "RemoveConflictingContacts cs ign = (cs', ign')"
    by (cases "RemoveConflictingContacts cs ign")
  have "no_conflict_before 0 cs"
    by (simp add: no_conflict_before_def)
  with res RemoveConflictingContacts_outer_result [of 0 cs ign cs' ign']
  have clean: "no_conflict_before (length cs') cs'" and pruned: "Pruned cs ign cs' ign'"
    by (simp_all add: RemoveConflictingContacts_def)
  from clean have "\<forall>i j. i < j \<and> j < length cs' \<longrightarrow> \<not> Conflicting (cs' ! i) (cs' ! j)"
    by (auto simp: no_conflict_before_def)
  moreover from pruned have
    "\<exists>ds. ign' = ign @ map (\<lambda>d. \<lparr> mBodyID = mBodyB d, mSubShapeID = mSubShapeIDB d \<rparr>) ds
          \<and> mset cs' + mset ds = mset cs
          \<and> (\<forall>d \<in> set ds. \<exists>k \<in> set cs. Conflicting k d \<and> mDistance k \<le> mDistance d)"
    unfolding Pruned_def ignored_of_def .
  ultimately show ?thesis
    using res by (simp add: cMinRequiredPenetration_def)
qed

text \<open>
  On the thin wall the first contact gives way to the second and the second to the
  third, which is the deepest; the two discarded contacts are recorded in that order.
\<close>

theorem RemoveConflictingContacts_prunes_witness:
  "RemoveConflictingContacts thin_wall_contacts []
     = ([example_contact 2 (Vec3 1 0 0) (- 3 / 10) Static],
        [\<lparr> mBodyID = 7, mSubShapeID = 0 \<rparr>, \<lparr> mBodyID = 7, mSubShapeID = 1 \<rparr>])"
  using RemoveConflictingContacts_prunes [of thin_wall_contacts "[]"]
  by (simp add: RemoveConflictingContacts_def RemoveConflictingContacts_outer.simps
        RemoveConflictingContacts_inner.simps thin_wall_contacts_def example_contact_def
        Contact_new_def erase_def cMinRequiredPenetration_def cCharacterPadding_def Dot_def Let_def)

end
